theory Spec2Isabelle
  imports Main "HOL-Library.Word"
begin

section \<open>The ABI of mp3\_lib.h\<close>

text \<open>
  Result codes. \<open>mp3_result_t\<close> is a C enum; an engine linked in from another language
  can hand back any integer, so the type is \<open>int\<close> and the enumerators are constants.
\<close>

type_synonym mp3_result_t = int

definition MP3_OK :: mp3_result_t where "MP3_OK = 0"
definition MP3_ERR_INVALID_PTR :: mp3_result_t where "MP3_ERR_INVALID_PTR = 1"
definition MP3_ERR_INVALID_ARG :: mp3_result_t where "MP3_ERR_INVALID_ARG = 2"
definition MP3_ERR_OUT_OF_MEMORY :: mp3_result_t where "MP3_ERR_OUT_OF_MEMORY = 3"
definition MP3_ERR_IO :: mp3_result_t where "MP3_ERR_IO = 4"
definition MP3_ERR_INVALID_FORMAT :: mp3_result_t where "MP3_ERR_INVALID_FORMAT = 5"
definition MP3_ERR_NOT_IMPLEMENTED :: mp3_result_t where "MP3_ERR_NOT_IMPLEMENTED = 6"
definition MP3_ERR_INTERNAL :: mp3_result_t where "MP3_ERR_INTERNAL = 7"
definition MP3_ERR_UNKNOWN :: mp3_result_t where "MP3_ERR_UNKNOWN = 255"

text \<open>The output record \<open>mp3_audio_info_t\<close>, field for field.\<close>

record mp3_audio_info_t =
  sample_rate :: "32 word"
  channels :: "16 word"
  bits_per_sample :: "16 word"
  bitrate :: "32 word"
  duration_ms :: "32 word"
  data_size :: "64 word"
  valid :: "8 word"

text \<open>What \<open>std::memset(out_info, 0, sizeof(*out_info))\<close> leaves in the record.\<close>

definition zero_info :: mp3_audio_info_t where
  "zero_info = \<lparr>sample_rate = 0, channels = 0, bits_per_sample = 0, bitrate = 0,
     duration_ms = 0, data_size = 0, valid = 0\<rparr>"

text \<open>
  Pointers. A pointer to a caller-owned object is an \<open>option\<close>: \<open>None\<close> is the null
  pointer, \<open>Some x\<close> points at an object whose content is \<open>x\<close>; a function that writes
  through the pointer returns the new content. Pointers into the heap and to the global
  detector are addresses.
\<close>

type_synonym addr = nat
type_synonym void_ptr = "addr option"

text \<open>
  The host callbacks. \<open>read_at user_ctx offset requested\<close> gives the result code
  and the bytes stored at \<open>dst\<close> (their number is \<open>*out_read\<close>).
\<close>

type_synonym mp3_read_at_fn = "void_ptr \<Rightarrow> 64 word \<Rightarrow> nat \<Rightarrow> mp3_result_t \<times> 8 word list"
type_synonym mp3_alloc_fn = "void_ptr \<Rightarrow> nat \<Rightarrow> void_ptr"
type_synonym mp3_free_fn = "void_ptr \<Rightarrow> void_ptr \<Rightarrow> unit"
type_synonym mp3_log_fn = "void_ptr \<Rightarrow> int \<Rightarrow> string \<Rightarrow> unit"

record mp3_host_api_t =
  user_ctx :: void_ptr
  source_size :: "64 word"
  read_at :: "mp3_read_at_fn option"
  alloc :: "mp3_alloc_fn option"
  free :: "mp3_free_fn option"
  log :: "mp3_log_fn option"

section \<open>The bridge mp3\_lib.cpp\<close>

subsection \<open>Internal structures and the program state\<close>

record mp3_detector_t =
  reserved :: "8 word"

text \<open>
  \<open>struct mp3_session_t { void* rust_session; }\<close>. The engine's session object is
  opaque to the bridge: \<open>'s\<close> is whatever the engine keeps behind the \<open>void*\<close>.
\<close>

record 's mp3_session_t =
  rust_session :: "'s option"

text \<open>
  The state the bridge works on: the global \<open>g_detector\<close>, the session objects that
  are alive on the heap, the cells \<open>new (std::nothrow)\<close> can still hand out (none left:
  it returns \<open>nullptr\<close>), and the state of the linked engine.
\<close>

record ('s, 'e) bridge_state =
  g_detector :: mp3_detector_t
  session_heap :: "addr \<rightharpoonup> 's mp3_session_t"
  free_cells :: "addr list"
  engine_state :: 'e

definition g_detector_addr :: addr where
  "g_detector_addr = 0"

text \<open>\<open>new (std::nothrow) mp3_session_t{}\<close>: a value-initialised session, or \<open>nullptr\<close>.\<close>

definition new_session :: "('s, 'e) bridge_state \<Rightarrow> addr option \<times> ('s, 'e) bridge_state" where
  "new_session st =
     (case free_cells st of
        [] \<Rightarrow> (None, st)
      | a # rest \<Rightarrow>
          (Some a, st\<lparr>session_heap := (session_heap st)(a \<mapsto> \<lparr>rust_session = None\<rparr>),
                       free_cells := rest\<rparr>))"

text \<open>\<open>delete session\<close>.\<close>

definition delete_session :: "addr \<Rightarrow> ('s, 'e) bridge_state \<Rightarrow> ('s, 'e) bridge_state" where
  "delete_session a st =
     st\<lparr>session_heap := (session_heap st)(a := None), free_cells := a # free_cells st\<rparr>"

subsection \<open>The engine behind the weak symbols\<close>

text \<open>
  The three \<open>mp3_rust_session_*_impl\<close> symbols are resolved at link time: either the
  weak definitions of the bridge or the engine's. The bridge functions take the linked
  implementation as a parameter. \<open>out_rust_session\<close> is always the address of a local
  of \<open>mp3_session_init\<close>, so its content goes in and comes out.
\<close>

record ('s, 'e) mp3_engine =
  init_impl :: "mp3_host_api_t option \<Rightarrow> 's option \<Rightarrow> 'e \<Rightarrow> mp3_result_t \<times> 's option \<times> 'e"
  run_impl :: "'s option \<Rightarrow> mp3_audio_info_t option \<Rightarrow> 'e
     \<Rightarrow> mp3_result_t \<times> mp3_audio_info_t option \<times> 'e"
  deinit_impl :: "'s option \<Rightarrow> 'e \<Rightarrow> 'e"

text \<open>The weak definitions: used when no engine is linked.\<close>

definition mp3_rust_session_init_impl ::
  "mp3_host_api_t option \<Rightarrow> 's option \<Rightarrow> 'e \<Rightarrow> mp3_result_t \<times> 's option \<times> 'e" where
  "mp3_rust_session_init_impl host_api out_rust_session e =
     (MP3_ERR_NOT_IMPLEMENTED, out_rust_session, e)"

definition mp3_rust_session_run_impl ::
  "'s option \<Rightarrow> mp3_audio_info_t option \<Rightarrow> 'e \<Rightarrow> mp3_result_t \<times> mp3_audio_info_t option \<times> 'e" where
  "mp3_rust_session_run_impl rsession out_info e =
     (MP3_ERR_NOT_IMPLEMENTED,
      (case out_info of None \<Rightarrow> None | Some _ \<Rightarrow> Some zero_info),
      e)"

definition mp3_rust_session_deinit_impl :: "'s option \<Rightarrow> 'e \<Rightarrow> 'e" where
  "mp3_rust_session_deinit_impl rsession e = e"

definition weak_stubs :: "('s, 'e) mp3_engine" where
  "weak_stubs = \<lparr>init_impl = mp3_rust_session_init_impl,
     run_impl = mp3_rust_session_run_impl,
     deinit_impl = mp3_rust_session_deinit_impl\<rparr>"

subsection \<open>Lifecycle API\<close>

definition mp3_detector_create :: "('s, 'e) bridge_state \<Rightarrow> addr option \<times> ('s, 'e) bridge_state" where
  "mp3_detector_create st = (Some g_detector_addr, st)"

definition mp3_detector_destroy :: "addr option \<Rightarrow> ('s, 'e) bridge_state \<Rightarrow> ('s, 'e) bridge_state" where
  "mp3_detector_destroy detector st = st"

definition mp3_detector_instance :: "('s, 'e) bridge_state \<Rightarrow> addr option \<times> ('s, 'e) bridge_state" where
  "mp3_detector_instance st = (Some g_detector_addr, st)"

text \<open>
  \<open>mp3_session_init\<close>. \<open>out_session\<close> points at the caller's \<open>mp3_session_t*\<close>
  variable; the result carries what that variable holds afterwards.
\<close>

definition mp3_session_init ::
  "('s, 'e) mp3_engine \<Rightarrow> addr option \<Rightarrow> mp3_host_api_t option \<Rightarrow> addr option option
     \<Rightarrow> ('s, 'e) bridge_state \<Rightarrow> mp3_result_t \<times> addr option option \<times> ('s, 'e) bridge_state" where
  "mp3_session_init eng detector host_api out_session st =
     (case (detector, host_api, out_session) of
        (Some _, Some api, Some _) \<Rightarrow>
          if read_at api = None then (MP3_ERR_INVALID_ARG, out_session, st)
          else
            (case new_session st of
               (None, st1) \<Rightarrow> (MP3_ERR_OUT_OF_MEMORY, Some None, st1)
             | (Some session, st1) \<Rightarrow>
                 (case init_impl eng host_api None (engine_state st1) of
                    (init_result, rsession, e') \<Rightarrow>
                      if init_result \<noteq> MP3_OK
                      then (init_result, Some None,
                            delete_session session (st1\<lparr>engine_state := e'\<rparr>))
                      else (MP3_OK, Some (Some session),
                            st1\<lparr>engine_state := e',
                                session_heap := (session_heap st1)
                                  (session \<mapsto> \<lparr>rust_session = rsession\<rparr>)\<rparr>)))
      | _ \<Rightarrow> (MP3_ERR_INVALID_PTR, out_session, st))"

text \<open>
  \<open>mp3_session_run\<close>. Dereferencing a session pointer that is not alive is undefined
  behaviour in C++: the model returns \<open>None\<close> there and \<open>Some\<close> everywhere else.
\<close>

definition mp3_session_run ::
  "('s, 'e) mp3_engine \<Rightarrow> addr option \<Rightarrow> mp3_audio_info_t option \<Rightarrow> ('s, 'e) bridge_state
     \<Rightarrow> (mp3_result_t \<times> mp3_audio_info_t option \<times> ('s, 'e) bridge_state) option" where
  "mp3_session_run eng session out_info st =
     (case (session, out_info) of
        (Some s, Some _) \<Rightarrow>
          (case session_heap st s of
             None \<Rightarrow> None
           | Some obj \<Rightarrow>
               (case run_impl eng (rust_session obj) (Some zero_info) (engine_state st) of
                  (run_result, out_info', e') \<Rightarrow>
                    Some (run_result, out_info', st\<lparr>engine_state := e'\<rparr>)))
      | _ \<Rightarrow> Some (MP3_ERR_INVALID_PTR, out_info, st))"

definition mp3_session_deinit ::
  "('s, 'e) mp3_engine \<Rightarrow> addr option \<Rightarrow> ('s, 'e) bridge_state \<Rightarrow> ('s, 'e) bridge_state option" where
  "mp3_session_deinit eng session st =
     (case session of
        None \<Rightarrow> Some st
      | Some s \<Rightarrow>
          (case session_heap st s of
             None \<Rightarrow> None
           | Some obj \<Rightarrow>
               Some (delete_session s
                  (st\<lparr>engine_state := deinit_impl eng (rust_session obj) (engine_state st)\<rparr>))))"

definition mp3_analyze ::
  "('s, 'e) mp3_engine \<Rightarrow> addr option \<Rightarrow> mp3_host_api_t option \<Rightarrow> mp3_audio_info_t option
     \<Rightarrow> ('s, 'e) bridge_state
     \<Rightarrow> (mp3_result_t \<times> mp3_audio_info_t option \<times> ('s, 'e) bridge_state) option" where
  "mp3_analyze eng detector host_api out_info st =
     (case (detector, host_api, out_info) of
        (Some _, Some _, Some _) \<Rightarrow>
          (case mp3_session_init eng detector host_api (Some None) st of
             (init_result, session_var, st1) \<Rightarrow>
               if init_result \<noteq> MP3_OK then Some (init_result, out_info, st1)
               else
                 (case session_var of
                    None \<Rightarrow> None
                  | Some session \<Rightarrow>
                      (case mp3_session_run eng session out_info st1 of
                         None \<Rightarrow> None
                       | Some (run_result, out_info', st2) \<Rightarrow>
                           (case mp3_session_deinit eng session st2 of
                              None \<Rightarrow> None
                            | Some st3 \<Rightarrow> Some (run_result, out_info', st3)))))
      | _ \<Rightarrow> Some (MP3_ERR_INVALID_PTR, out_info, st))"

subsection \<open>The sequence \<open>init -> run -> deinit\<close>\<close>

text \<open>
  The header documents \<open>mp3_analyze\<close> as the one-step form of init, run, deinit.
  This is that sequence, written from the three session functions alone: the caller's
  session variable starts as \<open>nullptr\<close>, a failed init ends the sequence with its
  error, and otherwise the session is run once and torn down.
\<close>

definition init_run_deinit ::
  "('s, 'e) mp3_engine \<Rightarrow> addr option \<Rightarrow> mp3_host_api_t option \<Rightarrow> mp3_audio_info_t option
     \<Rightarrow> ('s, 'e) bridge_state
     \<Rightarrow> (mp3_result_t \<times> mp3_audio_info_t option \<times> ('s, 'e) bridge_state) option" where
  "init_run_deinit eng detector host_api out_info st =
     (case mp3_session_init eng detector host_api (Some None) st of
        (init_result, session_var, st1) \<Rightarrow>
          if init_result \<noteq> MP3_OK then Some (init_result, out_info, st1)
          else
            (case session_var of
               None \<Rightarrow> None
             | Some session \<Rightarrow>
                 (case mp3_session_run eng session out_info st1 of
                    None \<Rightarrow> None
                  | Some (run_result, out_info', st2) \<Rightarrow>
                      (case mp3_session_deinit eng session st2 of
                         None \<Rightarrow> None
                       | Some st3 \<Rightarrow> Some (run_result, out_info', st3)))))"

section \<open>The host test TestCppApp/src/main.cpp\<close>

text \<open>
  \<open>host_read_at\<close> over an open file with the given content: a null context is
  \<open>MP3_ERR_INVALID_PTR\<close>, \<open>fseeko\<close> fails on an offset that is negative as
  \<open>off_t\<close>, and \<open>fread\<close> gives what is left of the file from the offset on.
\<close>

definition host_read_at :: "8 word list \<Rightarrow> mp3_read_at_fn" where
  "host_read_at file ctx offset requested =
     (if ctx = None then (MP3_ERR_INVALID_PTR, [])
      else if 2 ^ 63 \<le> unat offset then (MP3_ERR_IO, [])
      else (MP3_OK, take requested (drop (unat offset) file)))"

definition file_ctx_addr :: addr where
  "file_ctx_addr = 1"

text \<open>The \<open>mp3_host_api_t\<close> that \<open>analyzeFile\<close> builds: zeroed but for three fields.\<close>

definition analyzeFile_host_api :: "8 word list \<Rightarrow> mp3_host_api_t" where
  "analyzeFile_host_api file =
     \<lparr>user_ctx = Some file_ctx_addr, source_size = of_nat (length file),
      read_at = Some (host_read_at file), alloc = None, free = None, log = None\<rparr>"

text \<open>
  \<open>analyzeFile\<close> once the file is open: the record is zeroed by the caller and handed
  to \<open>mp3_analyze\<close>; \<open>r.ok\<close> is \<open>r.code == MP3_OK && r.info.valid\<close>.
\<close>

definition analyzeFile ::
  "('s, 'e) mp3_engine \<Rightarrow> addr option \<Rightarrow> 8 word list \<Rightarrow> ('s, 'e) bridge_state
     \<Rightarrow> (mp3_result_t \<times> mp3_audio_info_t option \<times> ('s, 'e) bridge_state) option" where
  "analyzeFile eng detector file st =
     mp3_analyze eng detector (Some (analyzeFile_host_api file)) (Some zero_info) st"

text \<open>The state at program start: \<open>g_detector{}\<close>, no session, the given free cells.\<close>

definition initial_state :: "addr list \<Rightarrow> 'e \<Rightarrow> ('s, 'e) bridge_state" where
  "initial_state cells e =
     \<lparr>g_detector = \<lparr>reserved = 0\<rparr>, session_heap = Map.empty, free_cells = cells,
      engine_state = e\<rparr>"

section \<open>The engine behind the weak symbols, modelled from the spec\<close>

text \<open>
  The engine that overrides the weak symbols is a separate library of the repository
  and not part of the bridge. The definitions of this section follow the specification
  of that engine, stage by stage.
\<close>

text \<open>Modelled from the spec: the error taxonomy of the engine (section 7), which the
  bridge only knows as result codes.\<close>

datatype engine_error =
  InvalidPointer | InvalidArgument | OutOfMemory | Io | InvalidFormat | NotImplemented
  | Internal | Unknown

text \<open>Modelled from the spec: the map from the taxonomy to the public result codes
  (section 6, result codes), the engine's half of the result assembler.\<close>

fun error_code :: "engine_error \<Rightarrow> mp3_result_t" where
  "error_code InvalidPointer = MP3_ERR_INVALID_PTR"
| "error_code InvalidArgument = MP3_ERR_INVALID_ARG"
| "error_code OutOfMemory = MP3_ERR_OUT_OF_MEMORY"
| "error_code Io = MP3_ERR_IO"
| "error_code InvalidFormat = MP3_ERR_INVALID_FORMAT"
| "error_code NotImplemented = MP3_ERR_NOT_IMPLEMENTED"
| "error_code Internal = MP3_ERR_INTERNAL"
| "error_code Unknown = MP3_ERR_UNKNOWN"

subsection \<open>ByteSource adapter\<close>

text \<open>Modelled from the spec: the engine's ByteSource (section 3); its
  \<open>total_size\<close> is known or unknown, 0 being the sentinel for unknown.\<close>

definition total_size :: "mp3_host_api_t \<Rightarrow> nat option" where
  "total_size api = (if source_size api = 0 then None else Some (unat (source_size api)))"

text \<open>Modelled from the spec: the engine's ByteSource adapter (sections 2 and 7): one
  read through the host callback. A failing callback is \<open>Io\<close>, a short read is the end
  of the source, and nothing is requested past a known \<open>total_size\<close>.\<close>

definition byte_source_read :: "mp3_host_api_t \<Rightarrow> nat \<Rightarrow> nat \<Rightarrow> engine_error + 8 word list" where
  "byte_source_read api offset max_len =
     (case read_at api of
        None \<Rightarrow> Inl InvalidArgument
      | Some f \<Rightarrow>
          (let want = (case total_size api of
                         None \<Rightarrow> if offset < 2 ^ 64 then max_len else 0
                       | Some tot \<Rightarrow> min max_len (tot - offset))
           in if want = 0 then Inr []
              else (case f (user_ctx api) (of_nat offset) want of
                      (rc, bytes) \<Rightarrow> if rc = MP3_OK then Inr (take want bytes) else Inl Io)))"

subsection \<open>Tag skipper (4.1)\<close>

text \<open>Modelled from the spec: the engine's recognition of a leading ID3v2 tag (4.1):
  \<open>"ID3"\<close>, version, flags and a 4-byte big-endian synchsafe size with each size
  byte's high bit masked off; the result is 10 + size, + 10 if the footer flag is set.\<close>

definition id3v2_tag_size :: "8 word list \<Rightarrow> nat option" where
  "id3v2_tag_size bs =
     (if length bs = 10 \<and> bs ! 0 = 0x49 \<and> bs ! 1 = 0x44 \<and> bs ! 2 = 0x33
      then Some (10
        + (((unat (bs ! 6) mod 128) * 128 + unat (bs ! 7) mod 128) * 128
             + unat (bs ! 8) mod 128) * 128 + unat (bs ! 9) mod 128
        + (if unat (bs ! 5) div 16 mod 2 = 1 then 10 else 0))
      else None)"

text \<open>Modelled from the spec: the engine's recognition of a trailing ID3v1 tag (4.1):
  the last 128 bytes start with \<open>"TAG"\<close>.\<close>

definition id3v1_tag :: "8 word list \<Rightarrow> bool" where
  "id3v1_tag bs \<longleftrightarrow> length bs = 128 \<and> bs ! 0 = 0x54 \<and> bs ! 1 = 0x41 \<and> bs ! 2 = 0x47"

text \<open>Modelled from the spec: the engine's tag skipper (4.1), giving
  \<open>(audio_start, audio_end)\<close>; \<open>audio_end\<close> stays unresolved (\<open>None\<close>) when the
  total size is unknown; a failing read is propagated.\<close>

definition tag_skipper :: "mp3_host_api_t \<Rightarrow> engine_error + nat \<times> nat option" where
  "tag_skipper api =
     (case byte_source_read api 0 10 of
        Inl e \<Rightarrow> Inl e
      | Inr head \<Rightarrow>
          (let audio_start = (case id3v2_tag_size head of None \<Rightarrow> 0 | Some n \<Rightarrow> n) in
           case total_size api of
             None \<Rightarrow> Inr (audio_start, None)
           | Some tot \<Rightarrow>
               if tot < 128 then Inr (audio_start, Some tot)
               else (case byte_source_read api (tot - 128) 128 of
                       Inl e \<Rightarrow> Inl e
                     | Inr tail \<Rightarrow>
                         Inr (audio_start,
                              Some (if id3v1_tag tail then tot - 128 else tot)))))"

subsection \<open>Frame header decoder (4.3)\<close>

text \<open>Modelled from the spec: the MPEG versions of the engine's FrameHeader (section 3).\<close>

datatype mpeg_version = MPEG1 | MPEG2 | MPEG2_5

text \<open>Modelled from the spec: the layers of the engine's FrameHeader (section 3).\<close>

datatype mpeg_layer = LayerI | LayerII | LayerIII

text \<open>Modelled from the spec: the channel modes of the engine's FrameHeader (section 3).\<close>

datatype channel_mode = Stereo | JointStereo | DualChannel | Mono

text \<open>Modelled from the spec: the engine's FrameHeader value (section 3), decoded from 4 bytes.\<close>

record FrameHeader =
  version :: mpeg_version
  layer :: mpeg_layer
  bitrate_bps :: nat
  sample_rate_hz :: nat
  channel_mode :: channel_mode
  padding_bit :: bool
  protection_bit :: bool
  frame_length_bytes :: nat

text \<open>Modelled from the spec: the engine's reading of the 2-bit version field (4.3), with the
  MPEG assignment of the bit patterns; the reserved pattern gives \<open>None\<close>.\<close>

definition version_of_bits :: "nat \<Rightarrow> mpeg_version option" where
  "version_of_bits v =
     (if v = 3 then Some MPEG1 else if v = 2 then Some MPEG2
      else if v = 0 then Some MPEG2_5 else None)"

text \<open>Modelled from the spec: the engine's reading of the 2-bit layer field (4.3), with the
  MPEG assignment of the bit patterns; the reserved pattern gives \<open>None\<close>.\<close>

definition layer_of_bits :: "nat \<Rightarrow> mpeg_layer option" where
  "layer_of_bits l =
     (if l = 3 then Some LayerI else if l = 2 then Some LayerII
      else if l = 1 then Some LayerIII else None)"

text \<open>Modelled from the spec: the engine's reading of the 2-bit channel-mode field (4.3),
  with the MPEG assignment of the bit patterns.\<close>

definition channel_mode_of_bits :: "nat \<Rightarrow> channel_mode" where
  "channel_mode_of_bits m =
     (if m = 0 then Stereo else if m = 1 then JointStereo
      else if m = 2 then DualChannel else Mono)"

text \<open>Modelled from the spec: the engine's fixed bitrate table keyed by (version, layer) (4.3,
  section 9), which the spec names without listing: the bitrates of the MPEG
  specification in kbit/s, by index.\<close>

fun bitrate_table :: "mpeg_version \<Rightarrow> mpeg_layer \<Rightarrow> nat list" where
  "bitrate_table MPEG1 LayerI = [0, 32, 64, 96, 128, 160, 192, 224, 256, 288, 320, 352, 384, 416, 448]"
| "bitrate_table MPEG1 LayerII = [0, 32, 48, 56, 64, 80, 96, 112, 128, 160, 192, 224, 256, 320, 384]"
| "bitrate_table MPEG1 LayerIII = [0, 32, 40, 48, 56, 64, 80, 96, 112, 128, 160, 192, 224, 256, 320]"
| "bitrate_table _ LayerI = [0, 32, 48, 56, 64, 80, 96, 112, 128, 144, 160, 176, 192, 224, 256]"
| "bitrate_table _ _ = [0, 8, 16, 24, 32, 40, 48, 56, 64, 80, 96, 112, 128, 144, 160]"

text \<open>Modelled from the spec: the engine's fixed sample-rate table keyed by version (4.3,
  section 9), which the spec names without listing: the sample rates of the MPEG
  specification in Hz, by index.\<close>

fun sample_rate_table :: "mpeg_version \<Rightarrow> nat list" where
  "sample_rate_table MPEG1 = [44100, 48000, 32000]"
| "sample_rate_table MPEG2 = [22050, 24000, 16000]"
| "sample_rate_table MPEG2_5 = [11025, 12000, 8000]"

text \<open>Modelled from the spec: the engine's frame length (4.3): Layer I
  \<open>(12 * bitrate / sample_rate + padding) * 4\<close>; Layers II and III
  \<open>144 * bitrate / sample_rate + padding\<close> for MPEG1 and
  \<open>72 * bitrate / sample_rate + padding\<close> for MPEG2 and MPEG2.5; truncating division.\<close>

definition frame_length :: "mpeg_version \<Rightarrow> mpeg_layer \<Rightarrow> nat \<Rightarrow> nat \<Rightarrow> nat \<Rightarrow> nat" where
  "frame_length v l bps rate padding =
     (case l of
        LayerI \<Rightarrow> (12 * bps div rate + padding) * 4
      | _ \<Rightarrow> (case v of
                 MPEG1 \<Rightarrow> 144 * bps div rate + padding
               | _ \<Rightarrow> 72 * bps div rate + padding))"

text \<open>Modelled from the spec: the engine's sync test (4.2): the 11-bit sync pattern in
  the top bits of two consecutive bytes.\<close>

definition is_sync :: "8 word list \<Rightarrow> bool" where
  "is_sync bs \<longleftrightarrow> 2 \<le> length bs \<and> bs ! 0 = 0xFF \<and> unat (bs ! 1) div 32 = 7"

text \<open>Modelled from the spec: the engine's frame header decoder (4.3): 11 bits sync,
  2 bits version, 2 bits layer, 1 bit protection, 4 bits bitrate index, 2 bits
  sample-rate index, 1 bit padding, 1 bit private, 2 bits channel mode. Reserved
  fields, the free-format bitrate index 0 and a frame length under 4 are rejected.\<close>

definition decode_frame_header :: "8 word list \<Rightarrow> FrameHeader option" where
  "decode_frame_header bs =
     (if length bs = 4 \<and> is_sync bs then
        (case (version_of_bits (unat (bs ! 1) div 8 mod 4),
               layer_of_bits (unat (bs ! 1) div 2 mod 4)) of
           (Some v, Some l) \<Rightarrow>
             (let bitrate_index = unat (bs ! 2) div 16;
                  sample_rate_index = unat (bs ! 2) div 4 mod 4;
                  padding = unat (bs ! 2) div 2 mod 2
              in if bitrate_index = 0 \<or> bitrate_index = 15 \<or> sample_rate_index = 3 then None
                 else
                   (let bps = 1000 * (bitrate_table v l ! bitrate_index);
                        rate = sample_rate_table v ! sample_rate_index;
                        len = frame_length v l bps rate padding
                    in if len < 4 then None
                       else Some \<lparr>version = v, layer = l, bitrate_bps = bps,
                              sample_rate_hz = rate,
                              channel_mode = channel_mode_of_bits (unat (bs ! 3) div 64),
                              padding_bit = (padding = 1),
                              protection_bit = (unat (bs ! 1) mod 2 = 1),
                              frame_length_bytes = len\<rparr>))
         | _ \<Rightarrow> None)
      else None)"

subsection \<open>Frame synchronizer (4.2)\<close>

text \<open>Modelled from the spec: the engine's lookahead window (4.2), the policy value
  64 KiB the spec gives as its example.\<close>

definition scan_window :: nat where
  "scan_window = 65536"

text \<open>Modelled from the spec: the engine's frame synchronizer (4.2): a byte-by-byte
  scan from \<open>offset\<close> up to \<open>limit\<close> for a header that decodes and, when the
  source reaches that far, is followed at \<open>offset + frame_length_bytes\<close> by another
  sync pattern. \<open>Inr None\<close> is "no frame found".\<close>

function frame_synchronizer ::
  "mp3_host_api_t \<Rightarrow> nat \<Rightarrow> nat \<Rightarrow> engine_error + (nat \<times> FrameHeader) option" where
  "frame_synchronizer api limit offset =
     (if limit \<le> offset then Inr None
      else
        (case byte_source_read api offset 4 of
           Inl e \<Rightarrow> Inl e
         | Inr bs \<Rightarrow>
             if length bs < 4 then Inr None
             else
               (case decode_frame_header bs of
                  None \<Rightarrow> frame_synchronizer api limit (offset + 1)
                | Some h \<Rightarrow>
                    (case byte_source_read api (offset + frame_length_bytes h) 2 of
                       Inl e \<Rightarrow> Inl e
                     | Inr next \<Rightarrow>
                         if length next < 2 \<or> is_sync next then Inr (Some (offset, h))
                         else frame_synchronizer api limit (offset + 1)))))"
  by pat_completeness auto
termination
  by (relation "measure (\<lambda>(api, limit, offset). limit - offset)") auto

declare frame_synchronizer.simps [simp del]

subsection \<open>VBR header extractor (4.4)\<close>

text \<open>Modelled from the spec: the kinds of the engine's VbrInfo (section 3).\<close>

datatype vbr_kind = Xing | VBRI | NoVbr

text \<open>Modelled from the spec: the engine's VbrInfo value (section 3).\<close>

record VbrInfo =
  kind :: vbr_kind
  frame_count :: "nat option"
  byte_count :: "nat option"
  toc :: "8 word list option"

text \<open>Modelled from the spec: the engine's big-endian unsigned reading of a field (4.4).\<close>

definition be_u32 :: "8 word list \<Rightarrow> nat" where
  "be_u32 bs = foldl (\<lambda>acc b. acc * 256 + unat b) 0 bs"

text \<open>Modelled from the spec: the engine's side-information offset past the frame
  header, with the values the spec lists (4.4): 17 for MPEG1 stereo, 9 for MPEG1 mono
  and MPEG2 stereo, 4 for MPEG2 mono.\<close>

definition side_info_size :: "mpeg_version \<Rightarrow> channel_mode \<Rightarrow> nat" where
  "side_info_size v m =
     (case v of
        MPEG1 \<Rightarrow> if m = Mono then 9 else 17
      | _ \<Rightarrow> if m = Mono then 4 else 9)"

text \<open>Modelled from the spec: the engine's read of a tag field of fixed width (4.4); a
  tag that ends before its field is an inconsistent header, \<open>InvalidFormat\<close> (section 7).\<close>

definition read_field :: "mp3_host_api_t \<Rightarrow> nat \<Rightarrow> nat \<Rightarrow> engine_error + 8 word list" where
  "read_field api offset n =
     (case byte_source_read api offset n of
        Inl e \<Rightarrow> Inl e
      | Inr bs \<Rightarrow> if length bs < n then Inl InvalidFormat else Inr bs)"

text \<open>Modelled from the spec: the engine's conditional read of a 32-bit count of the
  Xing tag (4.4), present when its flag bit is set.\<close>

definition read_optional_u32 ::
  "mp3_host_api_t \<Rightarrow> bool \<Rightarrow> nat \<Rightarrow> engine_error + nat option" where
  "read_optional_u32 api present offset =
     (if present
      then (case read_field api offset 4 of Inl e \<Rightarrow> Inl e | Inr bs \<Rightarrow> Inr (Some (be_u32 bs)))
      else Inr None)"

text \<open>Modelled from the spec: the engine's Xing parser (4.4): a big-endian flags word,
  then the frame count if bit 0 is set, the byte count if bit 1, the 100-byte TOC if
  bit 2; the quality indicator is ignored.\<close>

definition parse_xing :: "mp3_host_api_t \<Rightarrow> nat \<Rightarrow> engine_error + VbrInfo" where
  "parse_xing api tag =
     (case read_field api (tag + 4) 4 of
        Inl e \<Rightarrow> Inl e
      | Inr fs \<Rightarrow>
          (let flags = be_u32 fs;
               has_frames = (flags mod 2 = 1);
               has_bytes = (flags div 2 mod 2 = 1);
               has_toc = (flags div 4 mod 2 = 1);
               frames_at = tag + 8;
               bytes_at = frames_at + (if has_frames then 4 else 0);
               toc_at = bytes_at + (if has_bytes then 4 else 0)
           in case read_optional_u32 api has_frames frames_at of
                Inl e \<Rightarrow> Inl e
              | Inr fc \<Rightarrow>
                  (case read_optional_u32 api has_bytes bytes_at of
                     Inl e \<Rightarrow> Inl e
                   | Inr bc \<Rightarrow>
                       if has_toc
                       then (case read_field api toc_at 100 of
                               Inl e \<Rightarrow> Inl e
                             | Inr t \<Rightarrow>
                                 Inr \<lparr>kind = Xing, frame_count = fc, byte_count = bc,
                                      toc = Some t\<rparr>)
                       else Inr \<lparr>kind = Xing, frame_count = fc, byte_count = bc,
                                 toc = None\<rparr>)))"

text \<open>Modelled from the spec: the engine's VBRI parser (4.4): after the signature come
  version, delay and quality (2 bytes each), then the byte count and the frame count.\<close>

definition parse_vbri :: "mp3_host_api_t \<Rightarrow> nat \<Rightarrow> engine_error + VbrInfo" where
  "parse_vbri api tag =
     (case read_field api (tag + 10) 8 of
        Inl e \<Rightarrow> Inl e
      | Inr bs \<Rightarrow>
          Inr \<lparr>kind = VBRI, frame_count = Some (be_u32 (drop 4 bs)),
               byte_count = Some (be_u32 (take 4 bs)), toc = None\<rparr>)"

text \<open>Modelled from the spec: the engine's VBR header extractor (4.4): \<open>"Xing"\<close> or
  \<open>"Info"\<close> at the side-information offset past the header, else \<open>"VBRI"\<close> 36 bytes
  past the header, else kind none; the first match wins.\<close>

definition vbr_header_extractor ::
  "mp3_host_api_t \<Rightarrow> nat \<Rightarrow> FrameHeader \<Rightarrow> engine_error + VbrInfo" where
  "vbr_header_extractor api frame_offset h =
     (let xing_at = frame_offset + 4 + side_info_size (version h) (channel_mode h);
          vbri_at = frame_offset + 4 + 36
      in case byte_source_read api xing_at 4 of
           Inl e \<Rightarrow> Inl e
         | Inr sig \<Rightarrow>
             if sig = [0x58, 0x69, 0x6E, 0x67] \<or> sig = [0x49, 0x6E, 0x66, 0x6F]
             then parse_xing api xing_at
             else (case byte_source_read api vbri_at 4 of
                     Inl e \<Rightarrow> Inl e
                   | Inr sig' \<Rightarrow>
                       if sig' = [0x56, 0x42, 0x52, 0x49] then parse_vbri api vbri_at
                       else Inr \<lparr>kind = NoVbr, frame_count = None, byte_count = None,
                                 toc = None\<rparr>))"

subsection \<open>Duration estimator (4.5)\<close>

text \<open>Modelled from the spec: the engine's samples per frame (4.5): 384 for Layer I,
  1152 for Layer II and for Layer III of MPEG1, 576 for Layer III of MPEG2 and MPEG2.5.\<close>

definition samples_per_frame :: "mpeg_version \<Rightarrow> mpeg_layer \<Rightarrow> nat" where
  "samples_per_frame v l =
     (case l of
        LayerI \<Rightarrow> 384
      | LayerII \<Rightarrow> 1152
      | LayerIII \<Rightarrow> (case v of MPEG1 \<Rightarrow> 1152 | _ \<Rightarrow> 576))"

text \<open>Modelled from the spec: the engine's cap on the fallback scan, the explicit
  policy value section 9 asks the implementer to pick.\<close>

definition max_scan_frames :: nat where
  "max_scan_frames = 1048576"

text \<open>Modelled from the spec: the engine's fallback scan (4.5): every frame from the
  start offset to the end of the source, summing the frame count and the byte count.\<close>

fun scan_frames ::
  "mp3_host_api_t \<Rightarrow> nat \<Rightarrow> nat \<Rightarrow> nat \<Rightarrow> nat \<Rightarrow> engine_error + nat \<times> nat" where
  "scan_frames api 0 offset frames bytes = Inr (frames, bytes)"
| "scan_frames api (Suc fuel) offset frames bytes =
     (case frame_synchronizer api (offset + scan_window) offset of
        Inl e \<Rightarrow> Inl e
      | Inr None \<Rightarrow> Inr (frames, bytes)
      | Inr (Some (at, h)) \<Rightarrow>
          scan_frames api fuel (at + frame_length_bytes h) (Suc frames)
            (bytes + frame_length_bytes h))"

text \<open>Modelled from the spec: what the engine's duration estimator hands to the result
  assembler (4.5, 4.6).\<close>

record Estimate =
  est_duration_ms :: nat
  est_bitrate_bps :: nat
  est_data_size_bytes :: nat

text \<open>Modelled from the spec: the engine's estimate from a frame count (4.5):
  \<open>frame_count * samples_per_frame / sample_rate_hz * 1000\<close> ms, the bitrate
  \<open>byte_count * 8 / duration_s\<close> if the byte count is present and the nominal one
  otherwise; a zero sample rate or frame count is \<open>InvalidFormat\<close>.\<close>

definition frames_estimate :: "FrameHeader \<Rightarrow> nat \<Rightarrow> nat option \<Rightarrow> nat \<Rightarrow> engine_error + Estimate" where
  "frames_estimate h frames bytes dsize =
     (if sample_rate_hz h = 0 \<or> frames = 0 then Inl InvalidFormat
      else
        (let d = frames * samples_per_frame (version h) (layer h) * 1000 div sample_rate_hz h
         in if d = 0 then Inl InvalidFormat
            else Inr \<lparr>est_duration_ms = d,
                   est_bitrate_bps =
                     (case bytes of None \<Rightarrow> bitrate_bps h | Some b \<Rightarrow> b * 8 * 1000 div d),
                   est_data_size_bytes = dsize\<rparr>))"

text \<open>Modelled from the spec: the engine's estimate from a byte count (4.5), the CBR
  formula \<open>bytes * 8 / bitrate_bps * 1000\<close> ms, reporting the bitrate of the first frame.\<close>

definition bytes_estimate :: "FrameHeader \<Rightarrow> nat \<Rightarrow> engine_error + Estimate" where
  "bytes_estimate h bytes =
     (if bitrate_bps h = 0 then Inl InvalidFormat
      else Inr \<lparr>est_duration_ms = bytes * 8 * 1000 div bitrate_bps h,
             est_bitrate_bps = bitrate_bps h,
             est_data_size_bytes = bytes\<rparr>)"

text \<open>Modelled from the spec: the engine's duration estimator, the policy table of 4.5
  row by row: a VBR tag with a frame count; a VBR tag with only a byte count; no VBR
  tag and a known total size, \<open>(audio_end - audio_start) * 8 / bitrate_bps * 1000\<close>; no
  VBR tag and an unknown total size, the fallback scan.\<close>

definition duration_estimator ::
  "mp3_host_api_t \<Rightarrow> FrameHeader \<Rightarrow> VbrInfo \<Rightarrow> nat \<Rightarrow> nat option \<Rightarrow> engine_error + Estimate" where
  "duration_estimator api h vbr audio_start audio_end =
     (case (frame_count vbr, byte_count vbr) of
        (Some frames, Some b) \<Rightarrow> frames_estimate h frames (Some b) b
      | (Some frames, None) \<Rightarrow>
          frames_estimate h frames None
            (case audio_end of None \<Rightarrow> 0 | Some e \<Rightarrow> e - audio_start)
      | (None, Some b) \<Rightarrow> bytes_estimate h b
      | (None, None) \<Rightarrow>
          (case audio_end of
             Some e \<Rightarrow>
               if e < audio_start then Inl InvalidFormat
               else bytes_estimate h (e - audio_start)
           | None \<Rightarrow>
               (case scan_frames api max_scan_frames audio_start 0 0 of
                  Inl e \<Rightarrow> Inl e
                | Inr (frames, bytes) \<Rightarrow> frames_estimate h frames (Some bytes) bytes)))"

subsection \<open>Result assembler (4.6) and the session functions\<close>

text \<open>Modelled from the spec: the engine's result assembler (4.6): \<open>valid = 1\<close> only
  with a duration and a sample rate above 0 and 1 or 2 channels; \<open>bits_per_sample\<close> is
  fixed at 16; a value that does not fit its field is \<open>Internal\<close> (section 7).\<close>

definition result_assembler :: "FrameHeader \<Rightarrow> Estimate \<Rightarrow> engine_error + mp3_audio_info_t" where
  "result_assembler h est =
     (if est_duration_ms est = 0 \<or> sample_rate_hz h = 0 then Inl InvalidFormat
      else if 2 ^ 32 \<le> est_duration_ms est \<or> 2 ^ 32 \<le> est_bitrate_bps est
              \<or> 2 ^ 32 \<le> sample_rate_hz h \<or> 2 ^ 64 \<le> est_data_size_bytes est
      then Inl Internal
      else Inr \<lparr>sample_rate = of_nat (sample_rate_hz h),
             channels = (if channel_mode h = Mono then 1 else 2),
             bits_per_sample = 16,
             bitrate = of_nat (est_bitrate_bps est),
             duration_ms = of_nat (est_duration_ms est),
             data_size = of_nat (est_data_size_bytes est),
             valid = 1\<rparr>)"

text \<open>Modelled from the spec: one analysis of the engine (section 2, control flow): tag
  skipper, frame synchronizer, header of the first frame, VBR header extractor,
  duration estimator, result assembler; each stage may end it with an error.\<close>

definition engine_analyze :: "mp3_host_api_t \<Rightarrow> engine_error + mp3_audio_info_t" where
  "engine_analyze api =
     (case tag_skipper api of
        Inl e \<Rightarrow> Inl e
      | Inr (audio_start, audio_end) \<Rightarrow>
          (case frame_synchronizer api (audio_start + scan_window) audio_start of
             Inl e \<Rightarrow> Inl e
           | Inr None \<Rightarrow> Inl InvalidFormat
           | Inr (Some (frame_offset, h)) \<Rightarrow>
               (case vbr_header_extractor api frame_offset h of
                  Inl e \<Rightarrow> Inl e
                | Inr vbr \<Rightarrow>
                    (case duration_estimator api h vbr audio_start audio_end of
                       Inl e \<Rightarrow> Inl e
                     | Inr est \<Rightarrow> result_assembler h est))))"

text \<open>Modelled from the spec: the engine's \<open>mp3_rust_session_init_impl\<close> (sections 6
  and 7): the initialization takes the host capabilities; a null argument is
  \<open>InvalidPointer\<close>, a missing read callback \<open>InvalidArgument\<close>. The session keeps the
  host capabilities and the engine has no state of its own (section 5).\<close>

definition engine_session_init ::
  "mp3_host_api_t option \<Rightarrow> mp3_host_api_t option \<Rightarrow> unit
     \<Rightarrow> mp3_result_t \<times> mp3_host_api_t option \<times> unit" where
  "engine_session_init host_api out_rust_session e =
     (case host_api of
        None \<Rightarrow> (error_code InvalidPointer, out_rust_session, e)
      | Some api \<Rightarrow>
          if read_at api = None then (error_code InvalidArgument, out_rust_session, e)
          else (MP3_OK, Some api, e))"

text \<open>Modelled from the spec: the engine's \<open>mp3_rust_session_run_impl\<close> (sections 4.6
  and 7): one analysis; on failure the record is reported with \<open>valid = 0\<close> next to
  the error's result code.\<close>

definition engine_session_run ::
  "mp3_host_api_t option \<Rightarrow> mp3_audio_info_t option \<Rightarrow> unit
     \<Rightarrow> mp3_result_t \<times> mp3_audio_info_t option \<times> unit" where
  "engine_session_run rsession out_info e =
     (case (rsession, out_info) of
        (Some api, Some _) \<Rightarrow>
          (case engine_analyze api of
             Inl err \<Rightarrow> (error_code err, Some zero_info, e)
           | Inr info \<Rightarrow> (MP3_OK, Some info, e))
      | _ \<Rightarrow> (error_code InvalidPointer, out_info, e))"

text \<open>Modelled from the spec: the engine's \<open>mp3_rust_session_deinit_impl\<close> (section
  6): teardown, possible whether or not an analysis ran.\<close>

definition engine_session_deinit :: "mp3_host_api_t option \<Rightarrow> unit \<Rightarrow> unit" where
  "engine_session_deinit rsession e = e"

text \<open>Modelled from the spec: the engine as it is linked over the weak symbols.\<close>

definition spec_engine :: "(mp3_host_api_t, unit) mp3_engine" where
  "spec_engine = \<lparr>init_impl = engine_session_init, run_impl = engine_session_run,
     deinit_impl = engine_session_deinit\<rparr>"

subsection \<open>Synthetic CBR streams (section 8)\<close>

text \<open>Modelled from the spec: the synthetic CBR streams of the testable properties
  (section 8): frames of one version, layer, bitrate and sample rate, each a header and
  a payload of zero bytes as long as the frame length formula says, with no tag around
  them and no VBR tag inside. The padding bit is chosen frame by frame. These are the
  parameters all frames of a stream share.\<close>

record cbr_params =
  cbr_version :: mpeg_version
  cbr_layer :: mpeg_layer
  cbr_bitrate_index :: nat
  cbr_sample_rate_index :: nat
  cbr_mode :: channel_mode

text \<open>Modelled from the spec: the version field of a synthetic frame header, the inverse of the
  decoder's reading (4.3).\<close>

definition version_bits :: "mpeg_version \<Rightarrow> nat" where
  "version_bits v = (case v of MPEG1 \<Rightarrow> 3 | MPEG2 \<Rightarrow> 2 | MPEG2_5 \<Rightarrow> 0)"

text \<open>Modelled from the spec: the layer field of a synthetic frame header, the inverse of the
  decoder's reading (4.3).\<close>

definition layer_bits :: "mpeg_layer \<Rightarrow> nat" where
  "layer_bits l = (case l of LayerI \<Rightarrow> 3 | LayerII \<Rightarrow> 2 | LayerIII \<Rightarrow> 1)"

text \<open>Modelled from the spec: the channel-mode field of a synthetic frame header, the inverse
  of the decoder's reading (4.3).\<close>

definition channel_bits :: "channel_mode \<Rightarrow> nat" where
  "channel_bits m = (case m of Stereo \<Rightarrow> 0 | JointStereo \<Rightarrow> 1 | DualChannel \<Rightarrow> 2 | Mono \<Rightarrow> 3)"

text \<open>Modelled from the spec: the parameters of a synthetic stream the decoder accepts (4.3): a
  bitrate index from 1 to 14 and a sample-rate index from 0 to 2.\<close>

definition cbr_valid :: "cbr_params \<Rightarrow> bool" where
  "cbr_valid p \<longleftrightarrow>
     1 \<le> cbr_bitrate_index p \<and> cbr_bitrate_index p \<le> 14 \<and> cbr_sample_rate_index p \<le> 2"

text \<open>Modelled from the spec: the bitrate B of a synthetic stream in bit/s, from the table (4.3).\<close>

definition cbr_bitrate :: "cbr_params \<Rightarrow> nat" where
  "cbr_bitrate p = 1000 * (bitrate_table (cbr_version p) (cbr_layer p) ! cbr_bitrate_index p)"

text \<open>Modelled from the spec: the sample rate R of a synthetic stream in Hz, from the table
  (4.3).\<close>

definition cbr_sample_rate :: "cbr_params \<Rightarrow> nat" where
  "cbr_sample_rate p = sample_rate_table (cbr_version p) ! cbr_sample_rate_index p"

text \<open>Modelled from the spec: the samples per frame of a synthetic stream (4.5).\<close>

definition cbr_samples_per_frame :: "cbr_params \<Rightarrow> nat" where
  "cbr_samples_per_frame p = samples_per_frame (cbr_version p) (cbr_layer p)"

text \<open>Modelled from the spec: the 4 header bytes of a synthetic frame in the bit layout of 4.3:
  sync, version, layer, protection bit set, bitrate index, sample-rate index, padding,
  private bit clear, channel mode, the remaining bits clear.\<close>

definition cbr_header :: "cbr_params \<Rightarrow> bool \<Rightarrow> 8 word list" where
  "cbr_header p pad =
     [0xFF,
      of_nat (224 + version_bits (cbr_version p) * 8 + layer_bits (cbr_layer p) * 2 + 1),
      of_nat (cbr_bitrate_index p * 16 + cbr_sample_rate_index p * 4 + (if pad then 2 else 0)),
      of_nat (channel_bits (cbr_mode p) * 64)]"

text \<open>Modelled from the spec: the length of a synthetic frame, by the formula of 4.3.\<close>

definition cbr_frame_length :: "cbr_params \<Rightarrow> bool \<Rightarrow> nat" where
  "cbr_frame_length p pad =
     frame_length (cbr_version p) (cbr_layer p) (cbr_bitrate p) (cbr_sample_rate p)
       (if pad then 1 else 0)"

text \<open>Modelled from the spec: one synthetic frame: the header and a payload of zero bytes up to
  the frame length.\<close>

definition cbr_frame :: "cbr_params \<Rightarrow> bool \<Rightarrow> 8 word list" where
  "cbr_frame p pad = cbr_header p pad @ replicate (cbr_frame_length p pad - 4) 0"

text \<open>Modelled from the spec: a synthetic CBR stream (section 8): one frame after the other,
  one per padding bit given.\<close>

definition cbr_stream :: "cbr_params \<Rightarrow> bool list \<Rightarrow> 8 word list" where
  "cbr_stream p pads = concat (map (cbr_frame p) pads)"

text \<open>Modelled from the spec: the record the engine reports for a CBR stream of
  \<open>bytes\<close> bytes between the tags (4.5, third row of the table, and 4.6): the sample
  rate and bitrate of the first frame, 1 or 2 channels, 16 bits per sample, the
  duration \<open>bytes * 8 / bitrate_bps * 1000\<close> ms, \<open>valid = 1\<close>.\<close>

definition cbr_info :: "cbr_params \<Rightarrow> nat \<Rightarrow> mp3_audio_info_t" where
  "cbr_info p bytes =
     \<lparr>sample_rate = of_nat (cbr_sample_rate p),
      channels = (if cbr_mode p = Mono then 1 else 2),
      bits_per_sample = 16,
      bitrate = of_nat (cbr_bitrate p),
      duration_ms = of_nat (bytes * 8 * 1000 div cbr_bitrate p),
      data_size = of_nat bytes,
      valid = 1\<rparr>"

text \<open>Modelled from the spec: the parameters of a synthetic stream (section 8): MPEG1
  Layer III, 128 kbit/s, 44100 Hz, stereo.\<close>

definition cbr_128k_44100 :: cbr_params where
  "cbr_128k_44100 = \<lparr>cbr_version = MPEG1, cbr_layer = LayerIII, cbr_bitrate_index = 9,
     cbr_sample_rate_index = 0, cbr_mode = Stereo\<rparr>"

text \<open>Modelled from the spec: the parameters of a synthetic stream (section 8): MPEG1
  Layer III, 128 kbit/s, 48000 Hz, stereo.\<close>

definition cbr_128k_48000 :: cbr_params where
  "cbr_128k_48000 = \<lparr>cbr_version = MPEG1, cbr_layer = LayerIII, cbr_bitrate_index = 9,
     cbr_sample_rate_index = 1, cbr_mode = Stereo\<rparr>"

text \<open>Modelled from the spec: the size in bytes of the slots the frame length formula (4.3)
  counts: 4 for Layer I, 1 for Layers II and III.\<close>

definition cbr_slot_bytes :: "cbr_params \<Rightarrow> nat" where
  "cbr_slot_bytes p = (case cbr_layer p of LayerI \<Rightarrow> 4 | _ \<Rightarrow> 1)"

text \<open>Modelled from the spec: the numerator of the frame length formula (4.3), the number
  that is divided by the sample rate: \<open>12 * bitrate\<close> for Layer I, \<open>144 * bitrate\<close>
  for Layers II and III of MPEG1, \<open>72 * bitrate\<close> for those of MPEG2 and MPEG2.5.\<close>

definition cbr_slot_numerator :: "cbr_params \<Rightarrow> nat" where
  "cbr_slot_numerator p =
     (case cbr_layer p of
        LayerI \<Rightarrow> 12
      | _ \<Rightarrow> (case cbr_version p of MPEG1 \<Rightarrow> 144 | _ \<Rightarrow> 72)) * cbr_bitrate p"

text \<open>Modelled from the spec: the padding bits of \<open>n\<close> frames padded as an encoder pads
  them, the choice the padding bit of 4.3 is there for: the remainder \<open>m\<close> that the
  truncating division of the frame length formula drops is carried from frame to frame,
  and a frame gets a padding slot when the carried remainder reaches the divisor \<open>r\<close>.\<close>

fun padding_bits :: "nat \<Rightarrow> nat \<Rightarrow> nat \<Rightarrow> nat \<Rightarrow> bool list" where
  "padding_bits m r acc 0 = []"
| "padding_bits m r acc (Suc n) =
     (if r \<le> acc + m then True # padding_bits m r (acc + m - r) n
      else False # padding_bits m r (acc + m) n)"

text \<open>Modelled from the spec: the padding bits of a synthetic stream of \<open>n\<close> frames
  padded by that rule, starting with nothing carried.\<close>

definition cbr_padding :: "cbr_params \<Rightarrow> nat \<Rightarrow> bool list" where
  "cbr_padding p n =
     padding_bits (cbr_slot_numerator p mod cbr_sample_rate p) (cbr_sample_rate p) 0 n"

text \<open>Modelled from the spec: the streams whose frame length formula (4.3) and samples per
  frame (4.5) describe the same frame, which is every version and layer but Layer II
  of MPEG2 and MPEG2.5: there the formula has the coefficient 72 of a frame of 576
  samples while a frame is said to hold 1152.\<close>

definition cbr_samples_match :: "cbr_params \<Rightarrow> bool" where
  "cbr_samples_match p \<longleftrightarrow> (cbr_layer p = LayerII \<longrightarrow> cbr_version p = MPEG1)"

text \<open>Modelled from the spec: the parameters of a synthetic stream (section 8): MPEG2
  Layer II, 64 kbit/s, 24000 Hz, stereo.\<close>

definition cbr_64k_24000_layer2 :: cbr_params where
  "cbr_64k_24000_layer2 = \<lparr>cbr_version = MPEG2, cbr_layer = LayerII, cbr_bitrate_index = 8,
     cbr_sample_rate_index = 1, cbr_mode = Stereo\<rparr>"

section \<open>Auxiliary notions for the statements\<close>

text \<open>A record as an earlier, successful analysis would have left it.\<close>

definition stale_info :: mp3_audio_info_t where
  "stale_info = \<lparr>sample_rate = 44100, channels = 2, bits_per_sample = 16, bitrate = 128000,
     duration_ms = 5000, data_size = 80000, valid = 1\<rparr>"

text \<open>
  An engine that reports a failed run with \<open>valid = 0\<close> in the record it was given
  zeroed.
\<close>

definition reports_failures_invalid :: "('s, 'e) mp3_engine \<Rightarrow> bool" where
  "reports_failures_invalid eng \<longleftrightarrow>
     (\<forall>rsession e. case run_impl eng rsession (Some zero_info) e of
        (r, out', e') \<Rightarrow> r = MP3_OK \<or> (\<exists>i'. out' = Some i' \<and> valid i' = 0))"

text \<open>
  An engine with no state of its own: each of its three functions returns the engine
  state it was given, and the run writes the record it was passed.
\<close>

definition stateless_engine :: "('s, 'e) mp3_engine \<Rightarrow> bool" where
  "stateless_engine eng \<longleftrightarrow>
     (\<forall>host_api cell e. snd (snd (init_impl eng host_api cell e)) = e) \<and>
     (\<forall>rsession i e. \<exists>r i'. run_impl eng rsession (Some i) e = (r, Some i', e)) \<and>
     (\<forall>rsession e. deinit_impl eng rsession e = e)"

text \<open>
  The bytes a synthetic stream is made of: \<open>0xFF\<close>, even bytes, and bytes from
  224 on. No tag signature consists of such bytes only.
\<close>

definition plain_byte :: "8 word \<Rightarrow> bool" where
  "plain_byte b \<longleftrightarrow> b = 0xFF \<or> even (unat b) \<or> 224 \<le> unat b"

section \<open>Facts about the bridge\<close>

lemmas mp3_result_defs =
  MP3_OK_def MP3_ERR_INVALID_PTR_def MP3_ERR_INVALID_ARG_def MP3_ERR_OUT_OF_MEMORY_def
  MP3_ERR_IO_def MP3_ERR_INVALID_FORMAT_def MP3_ERR_NOT_IMPLEMENTED_def
  MP3_ERR_INTERNAL_def MP3_ERR_UNKNOWN_def

lemmas bridge_splits = option.splits if_splits list.splits prod.splits

lemma mp3_session_init_null:
  "detector = None \<or> host_api = None \<or> out_session = None \<Longrightarrow>
   mp3_session_init eng detector host_api out_session st = (MP3_ERR_INVALID_PTR, out_session, st)"
  by (auto simp: mp3_session_init_def split: option.splits)

lemma mp3_session_run_null:
  "session = None \<or> out_info = None \<Longrightarrow>
   mp3_session_run eng session out_info st = Some (MP3_ERR_INVALID_PTR, out_info, st)"
  by (auto simp: mp3_session_run_def split: option.splits)

lemma mp3_analyze_null:
  "detector = None \<or> host_api = None \<or> out_info = None \<Longrightarrow>
   mp3_analyze eng detector host_api out_info st = Some (MP3_ERR_INVALID_PTR, out_info, st)"
  by (auto simp: mp3_analyze_def split: option.splits)

text \<open>What \<open>mp3_session_init\<close> does once its argument checks have passed.\<close>

lemma mp3_session_init_checked:
  assumes "read_at api \<noteq> None"
  shows "mp3_session_init eng (Some d) (Some api) (Some c) st =
     (case free_cells st of
        [] \<Rightarrow> (MP3_ERR_OUT_OF_MEMORY, Some None, st)
      | s # rest \<Rightarrow>
          (case init_impl eng (Some api) None (engine_state st) of
             (init_result, rsession, e') \<Rightarrow>
               if init_result \<noteq> MP3_OK
               then (init_result, Some None,
                     st\<lparr>session_heap := (session_heap st)(s := None), engine_state := e'\<rparr>)
               else (MP3_OK, Some (Some s),
                     st\<lparr>session_heap := (session_heap st)(s \<mapsto> \<lparr>rust_session = rsession\<rparr>),
                        free_cells := rest, engine_state := e'\<rparr>)))"
  using assms
  by (auto simp: mp3_session_init_def new_session_def delete_session_def split: bridge_splits)

lemma run_live:
  "session_heap st s = Some obj \<Longrightarrow>
   mp3_session_run eng (Some s) (Some i) st =
     (case run_impl eng (rust_session obj) (Some zero_info) (engine_state st) of
        (r, out', e') \<Rightarrow> Some (r, out', st\<lparr>engine_state := e'\<rparr>))"
  by (simp add: mp3_session_run_def)

lemma deinit_live:
  "session_heap st s = Some obj \<Longrightarrow>
   mp3_session_deinit eng (Some s) st =
     Some (delete_session s
       (st\<lparr>engine_state := deinit_impl eng (rust_session obj) (engine_state st)\<rparr>))"
  by (simp add: mp3_session_deinit_def)

text \<open>The whole of \<open>mp3_analyze\<close> once its argument checks have passed.\<close>

lemma mp3_analyze_checked:
  assumes "read_at api \<noteq> None"
  shows "mp3_analyze eng (Some d) (Some api) (Some i) st =
     (case free_cells st of
        [] \<Rightarrow> Some (MP3_ERR_OUT_OF_MEMORY, Some i, st)
      | s # rest \<Rightarrow>
          (case init_impl eng (Some api) None (engine_state st) of
             (init_result, rsession, e1) \<Rightarrow>
               if init_result \<noteq> MP3_OK
               then Some (init_result, Some i,
                      st\<lparr>session_heap := (session_heap st)(s := None), engine_state := e1\<rparr>)
               else
                 (case run_impl eng rsession (Some zero_info) e1 of
                    (run_result, out', e2) \<Rightarrow>
                      Some (run_result, out',
                        st\<lparr>session_heap := (session_heap st)(s := None),
                           engine_state := deinit_impl eng rsession e2\<rparr>))))"
proof (cases "free_cells st")
  case Nil
  then show ?thesis
    using assms
    by (simp add: mp3_analyze_def mp3_session_init_checked mp3_result_defs)
next
  case (Cons s rest)
  obtain ir rs e1 where init: "init_impl eng (Some api) None (engine_state st) = (ir, rs, e1)"
    by (cases "init_impl eng (Some api) None (engine_state st)") auto
  show ?thesis
  proof (cases "ir = MP3_OK")
    case False
    then show ?thesis
      using assms Cons init
      by (simp add: mp3_analyze_def mp3_session_init_checked)
  next
    case True
    obtain rr out' e2 where run: "run_impl eng rs (Some zero_info) e1 = (rr, out', e2)"
      by (cases "run_impl eng rs (Some zero_info) e1") auto
    show ?thesis
      using assms Cons init True run
      by (simp add: mp3_analyze_def mp3_session_init_checked run_live deinit_live
          delete_session_def)
  qed
qed


lemma init_ok:
  "mp3_session_init eng detector host_api out_session st = (MP3_OK, out', st1) \<Longrightarrow>
   \<exists>s. out' = Some (Some s) \<and> free_cells st = s # free_cells st1 \<and>
     session_heap st1 s \<noteq> None"
  by (auto simp: mp3_session_init_def new_session_def delete_session_def mp3_result_defs
      split: bridge_splits)

lemma init_detector:
  "mp3_session_init eng detector host_api out_session st = (r, out', st1) \<Longrightarrow>
   g_detector st1 = g_detector st"
  by (auto simp: mp3_session_init_def new_session_def delete_session_def mp3_result_defs
      split: bridge_splits)

lemma run_detector:
  "mp3_session_run eng session out_info st = Some (r, out', st1) \<Longrightarrow>
   g_detector st1 = g_detector st"
  by (auto simp: mp3_session_run_def split: bridge_splits)

lemma deinit_detector:
  "mp3_session_deinit eng session st = Some st1 \<Longrightarrow> g_detector st1 = g_detector st"
  by (auto simp: mp3_session_deinit_def delete_session_def split: bridge_splits)

lemma analyze_detector:
  "mp3_analyze eng detector host_api out_info st = Some (r, out', st1) \<Longrightarrow>
   g_detector st1 = g_detector st"
  unfolding mp3_analyze_def
  by (auto split: bridge_splits dest!: init_detector run_detector deinit_detector)

lemma analyze_unfold:
  "out_info \<noteq> None \<Longrightarrow>
   mp3_analyze eng detector host_api out_info st = init_run_deinit eng detector host_api out_info st"
proof (cases "detector = None \<or> host_api = None")
  case True
  then have "mp3_session_init eng detector host_api (Some None) st =
      (MP3_ERR_INVALID_PTR, Some None, st)"
    by (intro mp3_session_init_null) auto
  moreover have "mp3_analyze eng detector host_api out_info st =
      Some (MP3_ERR_INVALID_PTR, out_info, st)"
    using True by (intro mp3_analyze_null) auto
  ultimately show ?thesis
    by (simp add: init_run_deinit_def mp3_result_defs)
next
  case False
  assume "out_info \<noteq> None"
  with False show ?thesis
    by (auto simp: mp3_analyze_def init_run_deinit_def)
qed

lemma weak_stubs_simps [simp]:
  "init_impl weak_stubs = mp3_rust_session_init_impl"
  "run_impl weak_stubs = mp3_rust_session_run_impl"
  "deinit_impl weak_stubs = mp3_rust_session_deinit_impl"
  by (simp_all add: weak_stubs_def)

lemma spec_engine_simps [simp]:
  "init_impl spec_engine = engine_session_init"
  "run_impl spec_engine = engine_session_run"
  "deinit_impl spec_engine = engine_session_deinit"
  by (simp_all add: spec_engine_def)

lemma weak_stubs_reports_failures_invalid: "reports_failures_invalid weak_stubs"
  by (simp add: reports_failures_invalid_def mp3_rust_session_run_impl_def zero_info_def)

lemma spec_engine_reports_failures_invalid: "reports_failures_invalid spec_engine"
  by (auto simp: reports_failures_invalid_def engine_session_run_def zero_info_def
      split: option.splits sum.splits)

lemma weak_stubs_stateless: "stateless_engine weak_stubs"
  by (simp add: stateless_engine_def mp3_rust_session_init_impl_def
      mp3_rust_session_run_impl_def mp3_rust_session_deinit_impl_def)

lemma spec_engine_stateless: "stateless_engine spec_engine"
  by (auto simp: stateless_engine_def engine_session_init_def engine_session_run_def
      engine_session_deinit_def split: option.splits sum.splits)

lemma read_at_analyzeFile_host_api [simp]:
  "read_at (analyzeFile_host_api file) = Some (host_read_at file)"
  by (simp add: analyzeFile_host_api_def)

lemma initial_state_simps [simp]:
  "free_cells (initial_state cells e) = cells"
  "engine_state (initial_state cells e) = e"
  "session_heap (initial_state cells e) = Map.empty"
  "g_detector (initial_state cells e) = \<lparr>reserved = 0\<rparr>"
  by (simp_all add: initial_state_def)

text \<open>The empty file through the modelled engine: no frame is found.\<close>

lemma engine_analyze_empty_file: "engine_analyze (analyzeFile_host_api []) = Inl InvalidFormat"
  by (simp add: engine_analyze_def tag_skipper_def byte_source_read_def total_size_def
      analyzeFile_host_api_def host_read_at_def mp3_result_defs id3v2_tag_size_def
      frame_synchronizer.simps scan_window_def)


section \<open>Null arguments\<close>

text \<open>
  C3. A null required pointer makes \<open>mp3_session_init\<close>, \<open>mp3_session_run\<close> and
  \<open>mp3_analyze\<close> return \<open>MP3_ERR_INVALID_PTR\<close>, which is 1, and nothing else
  happens: the outputs and the whole state, the engine's included, are as before,
  whatever engine is linked.
\<close>

theorem null_pointer_arguments:
  "(detector = None \<or> host_api = None \<or> out_session = None \<longrightarrow>
      mp3_session_init eng detector host_api out_session st =
        (MP3_ERR_INVALID_PTR, out_session, st)) \<and>
   (session = None \<or> out_info = None \<longrightarrow>
      mp3_session_run eng session out_info st = Some (MP3_ERR_INVALID_PTR, out_info, st)) \<and>
   (detector = None \<or> host_api = None \<or> out_info = None \<longrightarrow>
      mp3_analyze eng detector host_api out_info st =
        Some (MP3_ERR_INVALID_PTR, out_info, st)) \<and>
   MP3_ERR_INVALID_PTR = 1"
  using mp3_session_init_null [of detector host_api out_session eng st]
    mp3_session_run_null [of session out_info eng st]
    mp3_analyze_null [of detector host_api out_info eng st]
  by (simp add: MP3_ERR_INVALID_PTR_def)

theorem null_pointer_arguments_witness:
  "mp3_session_init (weak_stubs :: (unit, unit) mp3_engine) None
       (Some (analyzeFile_host_api [255, 251])) (Some None) (initial_state [1, 2] ()) =
     (1, Some None, initial_state [1, 2] ()) \<and>
   mp3_session_run (weak_stubs :: (unit, unit) mp3_engine) None (Some zero_info)
       (initial_state [1, 2] ()) =
     Some (1, Some zero_info, initial_state [1, 2] ()) \<and>
   mp3_analyze (weak_stubs :: (unit, unit) mp3_engine) (Some g_detector_addr)
       (Some (analyzeFile_host_api [255, 251])) None (initial_state [1, 2] ()) =
     Some (1, None, initial_state [1, 2] ())"
  using null_pointer_arguments [of None "Some (analyzeFile_host_api [255, 251])" "Some None"
      "weak_stubs :: (unit, unit) mp3_engine" "initial_state [1, 2] ()" None "Some zero_info"]
    null_pointer_arguments [of "Some g_detector_addr" "Some (analyzeFile_host_api [255, 251])"
      "Some None" "weak_stubs :: (unit, unit) mp3_engine" "initial_state [1, 2] ()" None None]
  by simp

section \<open>Teardown\<close>

text \<open>
  C7. \<open>mp3_session_deinit\<close> on a null session pointer changes nothing, and on the
  session a successful \<open>mp3_session_init\<close> has just handed out, with no run in
  between, it is defined (no dangling pointer is touched), frees the session and gives
  its cell back. The function returns no result code, so it has none to report.
\<close>

theorem session_deinit_safe:
  "mp3_session_deinit eng None st = Some st \<and>
   (mp3_session_init eng detector host_api out_session st = (MP3_OK, out_session', st1) \<longrightarrow>
      (\<exists>s st2. out_session' = Some (Some s) \<and>
         mp3_session_deinit eng (Some s) st1 = Some st2 \<and>
         session_heap st2 s = None \<and> free_cells st2 = free_cells st \<and>
         g_detector st2 = g_detector st))"
proof -
  have null: "mp3_session_deinit eng None st = Some st"
    by (simp add: mp3_session_deinit_def)
  have fresh: "\<exists>s st2. out_session' = Some (Some s) \<and>
         mp3_session_deinit eng (Some s) st1 = Some st2 \<and>
         session_heap st2 s = None \<and> free_cells st2 = free_cells st \<and>
         g_detector st2 = g_detector st"
    if init: "mp3_session_init eng detector host_api out_session st = (MP3_OK, out_session', st1)"
  proof -
    from init_ok [OF init] obtain s where
      s: "out_session' = Some (Some s)" and cells: "free_cells st = s # free_cells st1"
      and live: "session_heap st1 s \<noteq> None"
      by auto
    from live obtain obj where obj: "session_heap st1 s = Some obj" by auto
    have det: "g_detector st1 = g_detector st" using init by (rule init_detector)
    show ?thesis
      using s cells det deinit_live [OF obj, of eng] by (auto simp: delete_session_def)
  qed
  from null fresh show ?thesis by blast
qed

theorem session_deinit_safe_witness:
  "fst (mp3_session_init spec_engine (Some g_detector_addr) (Some (analyzeFile_host_api []))
         (Some None) (initial_state [1, 2] ())) = MP3_OK \<and>
   (\<exists>st2. mp3_session_deinit spec_engine (Some 1)
         (snd (snd (mp3_session_init spec_engine (Some g_detector_addr)
            (Some (analyzeFile_host_api [])) (Some None) (initial_state [1, 2] ())))) = Some st2 \<and>
      session_heap st2 1 = None \<and> free_cells st2 = [1, 2])"
proof -
  obtain st1 where init: "mp3_session_init spec_engine (Some g_detector_addr)
      (Some (analyzeFile_host_api [])) (Some None) (initial_state [1, 2] ()) =
      (MP3_OK, Some (Some 1), st1)"
    by (simp add: mp3_session_init_checked engine_session_init_def)
  from session_deinit_safe [of spec_engine "initial_state [1, 2] ()" "Some g_detector_addr"
      "Some (analyzeFile_host_api [])" "Some None" "Some (Some 1)" st1] init
  show ?thesis by auto
qed

section \<open>The detector\<close>

text \<open>
  C8. \<open>mp3_detector_create\<close> and \<open>mp3_detector_instance\<close> return the address of
  \<open>g_detector\<close>, which is not null, and change nothing; \<open>mp3_detector_destroy\<close>
  changes nothing; no session function and no analysis changes \<open>g_detector\<close>; and an
  analysis with the handle obtained after a destroy is the analysis without the destroy.
\<close>

theorem detector_is_stateless:
  "mp3_detector_create st = (Some g_detector_addr, st) \<and>
   mp3_detector_instance st = (Some g_detector_addr, st) \<and>
   mp3_detector_destroy detector st = st \<and>
   g_detector (snd (snd (mp3_session_init eng detector host_api out_session st))) =
     g_detector st \<and>
   (\<forall>r out' st'. mp3_session_run eng session out_info st = Some (r, out', st') \<longrightarrow>
      g_detector st' = g_detector st) \<and>
   (\<forall>st'. mp3_session_deinit eng session st = Some st' \<longrightarrow> g_detector st' = g_detector st) \<and>
   (\<forall>r out' st'. mp3_analyze eng detector host_api out_info st = Some (r, out', st') \<longrightarrow>
      g_detector st' = g_detector st) \<and>
   mp3_analyze eng (fst (mp3_detector_create (mp3_detector_destroy detector st))) host_api
       out_info (mp3_detector_destroy detector st) =
     mp3_analyze eng (fst (mp3_detector_create st)) host_api out_info st"
proof -
  have "g_detector (snd (snd (mp3_session_init eng detector host_api out_session st))) =
      g_detector st"
    by (cases "mp3_session_init eng detector host_api out_session st")
      (auto dest: init_detector)
  then show ?thesis
    by (auto simp: mp3_detector_create_def mp3_detector_instance_def mp3_detector_destroy_def
        dest: run_detector deinit_detector analyze_detector)
qed

theorem detector_is_stateless_witness:
  "(\<exists>st'. analyzeFile (weak_stubs :: (unit, unit) mp3_engine)
        (fst (mp3_detector_instance (initial_state [1, 2] ()))) [255, 251]
        (initial_state [1, 2] ()) = Some (MP3_ERR_NOT_IMPLEMENTED, Some zero_info, st') \<and>
      g_detector st' = \<lparr>reserved = 0\<rparr>)"
proof -
  obtain st' where run: "mp3_analyze (weak_stubs :: (unit, unit) mp3_engine)
      (Some g_detector_addr) (Some (analyzeFile_host_api [255, 251])) (Some zero_info)
      (initial_state [1, 2] ()) = Some (MP3_ERR_NOT_IMPLEMENTED, Some zero_info, st')"
    by (simp add: mp3_analyze_checked mp3_rust_session_init_impl_def mp3_result_defs)
  from detector_is_stateless [of "initial_state [1, 2] ()" "Some g_detector_addr"
      "weak_stubs :: (unit, unit) mp3_engine" "Some (analyzeFile_host_api [255, 251])"
      None None "Some zero_info"] run
  show ?thesis
    by (auto simp: analyzeFile_def mp3_detector_instance_def)
qed


section \<open>\<open>mp3_analyze\<close> and the session functions\<close>

text \<open>
  C9, as the claim states it, fails for a null \<open>out_info\<close>: \<open>mp3_analyze\<close> checks
  its three pointers before anything else and returns \<open>MP3_ERR_INVALID_PTR\<close>, while
  the sequence starts with \<open>mp3_session_init\<close>, which never sees \<open>out_info\<close> and,
  with the weak stubs, ends the sequence with \<open>MP3_ERR_NOT_IMPLEMENTED\<close>.
\<close>

theorem analyze_is_init_run_deinit_counterexample:
  "map_option fst (mp3_analyze (weak_stubs :: (unit, unit) mp3_engine) (Some g_detector_addr)
      (Some (analyzeFile_host_api [255, 251])) None (initial_state [1, 2] ())) = Some 1 \<and>
   map_option fst (init_run_deinit (weak_stubs :: (unit, unit) mp3_engine)
      (Some g_detector_addr) (Some (analyzeFile_host_api [255, 251])) None
      (initial_state [1, 2] ())) = Some 6"
  by (simp add: mp3_analyze_null init_run_deinit_def mp3_session_init_checked
      mp3_rust_session_init_impl_def mp3_result_defs)

text \<open>
  C9, amended. For every detector, host\_api and non-null \<open>out_info\<close>,
  \<open>mp3_analyze\<close> is the sequence init, run, deinit: when \<open>mp3_session_init\<close> fails
  it returns that error with the record untouched and the state as init left it;
  otherwise the session is run once, torn down whatever the run returned, and the
  run's result code and record are returned. No step touches a dangling pointer.
\<close>

theorem analyze_is_init_run_deinit:
  assumes "out_info \<noteq> None"
  shows "mp3_analyze eng detector host_api out_info st =
           init_run_deinit eng detector host_api out_info st \<and>
         (case mp3_session_init eng detector host_api (Some None) st of
            (init_result, session_var, st1) \<Rightarrow>
              if init_result \<noteq> MP3_OK
              then mp3_analyze eng detector host_api out_info st =
                     Some (init_result, out_info, st1)
              else \<exists>s run_result out_info' st2 st3.
                     session_var = Some (Some s) \<and>
                     mp3_session_run eng (Some s) out_info st1 =
                       Some (run_result, out_info', st2) \<and>
                     mp3_session_deinit eng (Some s) st2 = Some st3 \<and>
                     session_heap st3 s = None \<and>
                     mp3_analyze eng detector host_api out_info st =
                       Some (run_result, out_info', st3))"
proof -
  obtain i where i: "out_info = Some i" using assms by auto
  obtain r sv st1 where
    init: "mp3_session_init eng detector host_api (Some None) st = (r, sv, st1)"
    by (cases "mp3_session_init eng detector host_api (Some None) st") auto
  have eq: "mp3_analyze eng detector host_api out_info st =
      init_run_deinit eng detector host_api out_info st"
    using assms by (rule analyze_unfold)
  show ?thesis
  proof (cases "r = MP3_OK")
    case False
    then show ?thesis using eq init by (simp add: init_run_deinit_def)
  next
    case True
    with init have init': "mp3_session_init eng detector host_api (Some None) st =
        (MP3_OK, sv, st1)"
      by simp
    from init_ok [OF init'] obtain s obj where
      sv: "sv = Some (Some s)" and obj: "session_heap st1 s = Some obj"
      by auto
    obtain rr out' e' where
      run: "run_impl eng (rust_session obj) (Some zero_info) (engine_state st1) = (rr, out', e')"
      by (cases "run_impl eng (rust_session obj) (Some zero_info) (engine_state st1)") auto
    let ?st2 = "st1\<lparr>engine_state := e'\<rparr>"
    have r1: "mp3_session_run eng (Some s) out_info st1 = Some (rr, out', ?st2)"
      using obj run i by (simp add: run_live)
    have obj2: "session_heap ?st2 s = Some obj" using obj by simp
    let ?st3 = "delete_session s
      (?st2\<lparr>engine_state := deinit_impl eng (rust_session obj) (engine_state ?st2)\<rparr>)"
    have d1: "mp3_session_deinit eng (Some s) ?st2 = Some ?st3"
      using obj2 by (rule deinit_live)
    have gone: "session_heap ?st3 s = None" by (simp add: delete_session_def)
    have "init_run_deinit eng detector host_api out_info st = Some (rr, out', ?st3)"
      using init' sv r1 d1 by (simp add: init_run_deinit_def)
    then show ?thesis
      using eq init' sv r1 d1 gone True by auto
  qed
qed

theorem analyze_is_init_run_deinit_witness:
  "Some zero_info \<noteq> None \<and>
   analyzeFile spec_engine (Some g_detector_addr) [] (initial_state [1, 2] ()) =
     init_run_deinit spec_engine (Some g_detector_addr) (Some (analyzeFile_host_api []))
       (Some zero_info) (initial_state [1, 2] ()) \<and>
   map_option fst (analyzeFile spec_engine (Some g_detector_addr) []
     (initial_state [1, 2] ())) = Some MP3_ERR_INVALID_FORMAT"
proof -
  have "map_option fst (mp3_analyze spec_engine (Some g_detector_addr)
      (Some (analyzeFile_host_api [])) (Some zero_info) (initial_state [1, 2] ())) =
      Some MP3_ERR_INVALID_FORMAT"
    by (simp add: mp3_analyze_checked engine_session_init_def engine_session_run_def
        engine_analyze_empty_file)
  with analyze_is_init_run_deinit [of "Some zero_info" spec_engine "Some g_detector_addr"
      "Some (analyzeFile_host_api [])" "initial_state [1, 2] ()"]
  show ?thesis by (simp add: analyzeFile_def)
qed

section \<open>The session handle that \<open>mp3_session_init\<close> gives out\<close>

text \<open>
  C10, as the claim states it, fails on the \<open>MP3_ERR_INVALID_ARG\<close> path: the
  pointer checks have passed, the read callback is missing, and the function returns
  before \<open>*out_session = nullptr\<close>: the caller's variable still holds what it held.
\<close>

theorem session_init_handle_counterexample:
  "fst (mp3_session_init (weak_stubs :: (unit, unit) mp3_engine) (Some g_detector_addr)
      (Some ((analyzeFile_host_api [255, 251])\<lparr>read_at := None\<rparr>)) (Some (Some 7))
      (initial_state [1, 2] ())) = MP3_ERR_INVALID_ARG \<and>
   MP3_ERR_INVALID_ARG \<noteq> MP3_OK \<and>
   fst (snd (mp3_session_init (weak_stubs :: (unit, unit) mp3_engine) (Some g_detector_addr)
      (Some ((analyzeFile_host_api [255, 251])\<lparr>read_at := None\<rparr>)) (Some (Some 7))
      (initial_state [1, 2] ()))) = Some (Some 7)"
  by (simp add: mp3_session_init_def mp3_result_defs)

text \<open>
  C10, amended. \<open>mp3_session_init\<close> returns \<open>MP3_OK\<close> if and only if it stores a
  fresh session handle into \<open>*out_session\<close>: one taken from the allocator by this
  call and alive afterwards. Whenever it returns another code after all its argument
  checks have passed (non-null detector, host\_api and out\_session, and a read
  callback), \<open>*out_session\<close> has been set to null. When one of the argument checks
  fails, a null detector, host\_api or out\_session giving \<open>MP3_ERR_INVALID_PTR\<close> and
  a missing read callback behind non-null pointers giving \<open>MP3_ERR_INVALID_ARG\<close>,
  \<open>*out_session\<close> and the whole state are left as the caller set them.
\<close>

theorem session_init_handle:
  "(fst (mp3_session_init eng detector host_api out_session st) = MP3_OK \<longleftrightarrow>
      (\<exists>s. fst (snd (mp3_session_init eng detector host_api out_session st)) = Some (Some s) \<and>
         free_cells st =
           s # free_cells (snd (snd (mp3_session_init eng detector host_api out_session st))) \<and>
         session_heap (snd (snd (mp3_session_init eng detector host_api out_session st))) s
           \<noteq> None)) \<and>
   (detector \<noteq> None \<and> out_session \<noteq> None \<and> host_api = Some api \<and> read_at api \<noteq> None \<and>
    fst (mp3_session_init eng detector host_api out_session st) \<noteq> MP3_OK \<longrightarrow>
      fst (snd (mp3_session_init eng detector host_api out_session st)) = Some None) \<and>
   (detector = None \<or> host_api = None \<or> out_session = None \<longrightarrow>
      mp3_session_init eng detector host_api out_session st =
        (MP3_ERR_INVALID_PTR, out_session, st)) \<and>
   (detector \<noteq> None \<and> out_session \<noteq> None \<and> host_api = Some api \<and> read_at api = None \<longrightarrow>
      mp3_session_init eng detector host_api out_session st =
        (MP3_ERR_INVALID_ARG, out_session, st))"
proof -
  obtain r out' st1 where
    init: "mp3_session_init eng detector host_api out_session st = (r, out', st1)"
    by (cases "mp3_session_init eng detector host_api out_session st") auto
  have fwd: "\<exists>s. out' = Some (Some s) \<and> free_cells st = s # free_cells st1 \<and>
      session_heap st1 s \<noteq> None" if "r = MP3_OK"
    using init that init_ok [of eng detector host_api out_session st out' st1] by simp
  have bwd: "r = MP3_OK"
    if new: "out' = Some (Some s)" "free_cells st = s # free_cells st1" for s
  proof (cases "\<exists>d a c. detector = Some d \<and> host_api = Some a \<and> out_session = Some c
      \<and> read_at a \<noteq> None")
    case True
    then show ?thesis
      using init new(1) by (auto simp: mp3_session_init_checked split: bridge_splits)
  next
    case False
    then have "st1 = st"
      using init by (auto simp: mp3_session_init_def split: bridge_splits)
    with new(2) show ?thesis by simp
  qed
  have cell: "out' = Some None"
    if "detector \<noteq> None" "out_session \<noteq> None" "host_api = Some api" "read_at api \<noteq> None"
      "r \<noteq> MP3_OK"
    using init that
    by (auto simp: mp3_session_init_checked split: bridge_splits)
  have null: "(r, out', st1) = (MP3_ERR_INVALID_PTR, out_session, st)"
    if "detector = None \<or> host_api = None \<or> out_session = None"
    using that init mp3_session_init_null [of detector host_api out_session eng st] by simp
  have arg: "(r, out', st1) = (MP3_ERR_INVALID_ARG, out_session, st)"
    if "detector \<noteq> None" "out_session \<noteq> None" "host_api = Some api" "read_at api = None"
    using that init by (auto simp: mp3_session_init_def)
  have iff: "r = MP3_OK \<longleftrightarrow>
      (\<exists>s. out' = Some (Some s) \<and> free_cells st = s # free_cells st1 \<and>
         session_heap st1 s \<noteq> None)"
    using fwd bwd by blast
  show ?thesis
    unfolding init fst_conv snd_conv
  proof (intro conjI impI)
    show "r = MP3_OK \<longleftrightarrow>
      (\<exists>s. out' = Some (Some s) \<and> free_cells st = s # free_cells st1 \<and>
         session_heap st1 s \<noteq> None)"
      by (rule iff)
  qed (use cell null arg in simp_all)
qed

theorem session_init_handle_witness:
  "fst (mp3_session_init (weak_stubs :: (unit, unit) mp3_engine) (Some g_detector_addr)
      (Some (analyzeFile_host_api [255, 251])) (Some (Some 7)) (initial_state [1, 2] ()))
     = MP3_ERR_NOT_IMPLEMENTED \<and>
   fst (snd (mp3_session_init (weak_stubs :: (unit, unit) mp3_engine) (Some g_detector_addr)
      (Some (analyzeFile_host_api [255, 251])) (Some (Some 7)) (initial_state [1, 2] ())))
     = Some None \<and>
   fst (mp3_session_init spec_engine (Some g_detector_addr)
      (Some (analyzeFile_host_api [255, 251])) (Some (Some 7)) (initial_state [1, 2] ()))
     = MP3_OK \<and>
   fst (snd (mp3_session_init spec_engine (Some g_detector_addr)
      (Some (analyzeFile_host_api [255, 251])) (Some (Some 7)) (initial_state [1, 2] ())))
     = Some (Some 1) \<and>
   mp3_session_init spec_engine None
      (Some (analyzeFile_host_api [255, 251])) (Some (Some 7)) (initial_state [1, 2] ())
     = (MP3_ERR_INVALID_PTR, Some (Some 7), initial_state [1, 2] ()) \<and>
   mp3_session_init spec_engine (Some g_detector_addr)
      (Some ((analyzeFile_host_api [255, 251])\<lparr>read_at := None\<rparr>)) (Some (Some 7))
      (initial_state [1, 2] ())
     = (MP3_ERR_INVALID_ARG, Some (Some 7), initial_state [1, 2] ())"
proof -
  have stub: "fst (mp3_session_init (weak_stubs :: (unit, unit) mp3_engine)
      (Some g_detector_addr) (Some (analyzeFile_host_api [255, 251])) (Some (Some 7))
      (initial_state [1, 2] ())) = MP3_ERR_NOT_IMPLEMENTED"
    by (simp add: mp3_session_init_checked mp3_rust_session_init_impl_def mp3_result_defs)
  have eng: "fst (mp3_session_init spec_engine (Some g_detector_addr)
      (Some (analyzeFile_host_api [255, 251])) (Some (Some 7)) (initial_state [1, 2] ()))
      = MP3_OK"
    by (simp add: mp3_session_init_checked engine_session_init_def)
  have cells: "free_cells (snd (snd (mp3_session_init spec_engine (Some g_detector_addr)
      (Some (analyzeFile_host_api [255, 251])) (Some (Some 7)) (initial_state [1, 2] ()))))
      = [2]"
    by (simp add: mp3_session_init_checked engine_session_init_def)
  from session_init_handle [of "weak_stubs :: (unit, unit) mp3_engine" "Some g_detector_addr"
      "Some (analyzeFile_host_api [255, 251])" "Some (Some 7)" "initial_state [1, 2] ()"
      "analyzeFile_host_api [255, 251]"] stub
  have a: "fst (snd (mp3_session_init (weak_stubs :: (unit, unit) mp3_engine)
      (Some g_detector_addr) (Some (analyzeFile_host_api [255, 251])) (Some (Some 7))
      (initial_state [1, 2] ()))) = Some None"
    by (simp add: mp3_result_defs)
  from session_init_handle [of spec_engine "Some g_detector_addr"
      "Some (analyzeFile_host_api [255, 251])" "Some (Some 7)" "initial_state [1, 2] ()"
      "analyzeFile_host_api [255, 251]"] eng
  obtain s where
    s: "fst (snd (mp3_session_init spec_engine (Some g_detector_addr)
      (Some (analyzeFile_host_api [255, 251])) (Some (Some 7)) (initial_state [1, 2] ())))
      = Some (Some s)"
    and "free_cells (initial_state [1, 2] () :: (mp3_host_api_t, unit) bridge_state) =
      s # free_cells (snd (snd (mp3_session_init spec_engine (Some g_detector_addr)
      (Some (analyzeFile_host_api [255, 251])) (Some (Some 7)) (initial_state [1, 2] ()))))"
    by blast
  with cells have "s = 1" by simp
  with s have b: "fst (snd (mp3_session_init spec_engine (Some g_detector_addr)
      (Some (analyzeFile_host_api [255, 251])) (Some (Some 7)) (initial_state [1, 2] ())))
      = Some (Some 1)"
    by simp
  from session_init_handle [of spec_engine None
      "Some (analyzeFile_host_api [255, 251])" "Some (Some 7)" "initial_state [1, 2] ()"
      "analyzeFile_host_api [255, 251]"]
  have c: "mp3_session_init spec_engine None
      (Some (analyzeFile_host_api [255, 251])) (Some (Some 7)) (initial_state [1, 2] ())
     = (MP3_ERR_INVALID_PTR, Some (Some 7), initial_state [1, 2] ())"
    by blast
  from session_init_handle [of spec_engine "Some g_detector_addr"
      "Some ((analyzeFile_host_api [255, 251])\<lparr>read_at := None\<rparr>)" "Some (Some 7)"
      "initial_state [1, 2] ()" "(analyzeFile_host_api [255, 251])\<lparr>read_at := None\<rparr>"]
  have d: "mp3_session_init spec_engine (Some g_detector_addr)
      (Some ((analyzeFile_host_api [255, 251])\<lparr>read_at := None\<rparr>)) (Some (Some 7))
      (initial_state [1, 2] ())
     = (MP3_ERR_INVALID_ARG, Some (Some 7), initial_state [1, 2] ())"
    by simp
  from stub a eng b c d show ?thesis by simp
qed


section \<open>A host\_api without a read callback\<close>

text \<open>
  C4, as the claim states it, fails when the detector (or the output pointer) is null
  as well: the pointer check comes first and the result is \<open>MP3_ERR_INVALID_PTR\<close>.
\<close>

theorem missing_read_callback_counterexample:
  "fst (mp3_session_init (weak_stubs :: (unit, unit) mp3_engine) None
      (Some ((analyzeFile_host_api [255, 251])\<lparr>read_at := None\<rparr>)) (Some None)
      (initial_state [1, 2] ())) = MP3_ERR_INVALID_PTR \<and>
   MP3_ERR_INVALID_PTR \<noteq> MP3_ERR_INVALID_ARG"
  by (simp add: mp3_session_init_null mp3_result_defs)

text \<open>
  C4, amended. With a non-null detector and output pointer, a non-null host\_api whose
  \<open>read_at\<close> is null makes \<open>mp3_session_init\<close> and \<open>mp3_analyze\<close> return
  \<open>MP3_ERR_INVALID_ARG\<close>, which is 2, with the outputs and the state untouched: no
  session is created and the engine is not called. With a read callback, null
  \<open>alloc\<close>, \<open>free\<close> and \<open>log\<close> are no error of the bridge: the result is
  \<open>MP3_ERR_OUT_OF_MEMORY\<close> if no session can be allocated and else whatever the
  engine's init returns for that host\_api.
\<close>

theorem missing_read_callback:
  "(detector \<noteq> None \<and> out_session \<noteq> None \<and> read_at api = None \<longrightarrow>
      mp3_session_init eng detector (Some api) out_session st =
        (MP3_ERR_INVALID_ARG, out_session, st)) \<and>
   (detector \<noteq> None \<and> out_info \<noteq> None \<and> read_at api = None \<longrightarrow>
      mp3_analyze eng detector (Some api) out_info st =
        Some (MP3_ERR_INVALID_ARG, out_info, st)) \<and>
   MP3_ERR_INVALID_ARG = 2 \<and>
   (detector \<noteq> None \<and> out_session \<noteq> None \<and> read_at api \<noteq> None \<longrightarrow>
      fst (mp3_session_init eng detector
             (Some (api\<lparr>alloc := None, free := None, log := None\<rparr>)) out_session st) =
        (case free_cells st of
           [] \<Rightarrow> MP3_ERR_OUT_OF_MEMORY
         | s # rest \<Rightarrow>
             fst (init_impl eng (Some (api\<lparr>alloc := None, free := None, log := None\<rparr>)) None
                    (engine_state st))))"
proof -
  have init: "mp3_session_init eng detector (Some api) out_session st =
      (MP3_ERR_INVALID_ARG, out_session, st)"
    if "detector \<noteq> None" "out_session \<noteq> None" "read_at api = None"
    using that by (auto simp: mp3_session_init_def)
  have analyze: "mp3_analyze eng detector (Some api) out_info st =
      Some (MP3_ERR_INVALID_ARG, out_info, st)"
    if "detector \<noteq> None" "out_info \<noteq> None" "read_at api = None"
    using that by (auto simp: mp3_analyze_def mp3_session_init_def mp3_result_defs)
  have optional: "fst (mp3_session_init eng detector
             (Some (api\<lparr>alloc := None, free := None, log := None\<rparr>)) out_session st) =
        (case free_cells st of
           [] \<Rightarrow> MP3_ERR_OUT_OF_MEMORY
         | s # rest \<Rightarrow>
             fst (init_impl eng (Some (api\<lparr>alloc := None, free := None, log := None\<rparr>)) None
                    (engine_state st)))"
    if "detector \<noteq> None" "out_session \<noteq> None" "read_at api \<noteq> None"
    using that by (auto simp: mp3_session_init_checked split: bridge_splits)
  from init analyze optional show ?thesis
    by (simp add: MP3_ERR_INVALID_ARG_def)
qed

theorem missing_read_callback_witness:
  "mp3_session_init (weak_stubs :: (unit, unit) mp3_engine) (Some g_detector_addr)
      (Some ((analyzeFile_host_api [255, 251])\<lparr>read_at := None\<rparr>)) (Some None)
      (initial_state [1, 2] ()) = (2, Some None, initial_state [1, 2] ()) \<and>
   mp3_analyze (weak_stubs :: (unit, unit) mp3_engine) (Some g_detector_addr)
      (Some ((analyzeFile_host_api [255, 251])\<lparr>read_at := None\<rparr>)) (Some zero_info)
      (initial_state [1, 2] ()) = Some (2, Some zero_info, initial_state [1, 2] ()) \<and>
   fst (mp3_session_init spec_engine (Some g_detector_addr)
      (Some (analyzeFile_host_api [255, 251])) (Some None) (initial_state [1, 2] ())) = MP3_OK"
proof -
  have same: "(analyzeFile_host_api [255, 251])\<lparr>alloc := None, free := None, log := None\<rparr> =
      analyzeFile_host_api [255, 251]"
    by (simp add: analyzeFile_host_api_def)
  from missing_read_callback [of "Some g_detector_addr" "Some None"
      "(analyzeFile_host_api [255, 251])\<lparr>read_at := None\<rparr>"
      "weak_stubs :: (unit, unit) mp3_engine" "initial_state [1, 2] ()" "Some zero_info"]
    missing_read_callback [of "Some g_detector_addr" "Some None"
      "analyzeFile_host_api [255, 251]" spec_engine "initial_state [1, 2] ()" "Some zero_info"]
  show ?thesis
    by (simp add: same engine_session_init_def)
qed

section \<open>A build without the engine\<close>

text \<open>
  C5, as the claim states it, fails: with the weak stubs \<open>mp3_analyze\<close> returns from
  the failed init and never reaches the run that would zero the record, so a record
  that held \<open>valid = 1\<close> before the call holds it afterwards; and when no session can
  be allocated the result is \<open>MP3_ERR_OUT_OF_MEMORY\<close>.
\<close>

theorem stub_build_analyze_counterexample:
  "mp3_analyze (weak_stubs :: (unit, unit) mp3_engine) (Some g_detector_addr)
      (Some (analyzeFile_host_api [255, 251])) (Some stale_info) (initial_state [1, 2] ()) =
     Some (MP3_ERR_NOT_IMPLEMENTED, Some stale_info, initial_state [1, 2] ()) \<and>
   valid stale_info = 1 \<and> stale_info \<noteq> zero_info \<and>
   map_option fst (mp3_analyze (weak_stubs :: (unit, unit) mp3_engine) (Some g_detector_addr)
      (Some (analyzeFile_host_api [255, 251])) (Some zero_info) (initial_state [] ())) =
     Some MP3_ERR_OUT_OF_MEMORY \<and>
   MP3_ERR_OUT_OF_MEMORY \<noteq> MP3_ERR_NOT_IMPLEMENTED"
  by (simp add: mp3_analyze_checked mp3_rust_session_init_impl_def mp3_result_defs
      initial_state_def stale_info_def zero_info_def)

text \<open>
  C5, amended. With the weak stubs, every call of \<open>mp3_analyze\<close> with non-null
  arguments and a read callback returns \<open>MP3_ERR_NOT_IMPLEMENTED\<close>, which is 6, when
  the session object can be allocated and \<open>MP3_ERR_OUT_OF_MEMORY\<close> when it cannot;
  the output record is left exactly as the caller passed it (zeroed if the caller
  zeroed it, as \<open>analyzeFile\<close> does), and no session stays behind.
\<close>

theorem stub_build_analyze:
  "(read_at api \<noteq> None \<longrightarrow>
      mp3_analyze weak_stubs (Some d) (Some api) (Some i) st =
        Some (if free_cells st = [] then MP3_ERR_OUT_OF_MEMORY else MP3_ERR_NOT_IMPLEMENTED,
              Some i,
              st\<lparr>session_heap :=
                   (case free_cells st of
                      [] \<Rightarrow> session_heap st
                    | s # rest \<Rightarrow> (session_heap st)(s := None))\<rparr>)) \<and>
   MP3_ERR_NOT_IMPLEMENTED = 6"
  by (auto simp: mp3_analyze_checked mp3_rust_session_init_impl_def mp3_result_defs
      split: list.splits)

theorem stub_build_analyze_witness:
  "read_at (analyzeFile_host_api [255, 251]) \<noteq> None \<and>
   analyzeFile (weak_stubs :: (unit, unit) mp3_engine) (Some g_detector_addr) [255, 251]
      (initial_state [1, 2] ()) = Some (6, Some zero_info, initial_state [1, 2] ())"
  using stub_build_analyze [of "analyzeFile_host_api [255, 251]" g_detector_addr zero_info
      "initial_state [1, 2] () :: (unit, unit) bridge_state"]
  by (simp add: analyzeFile_def initial_state_def)

section \<open>The record next to a failure\<close>

lemma failing_engine_run:
  assumes "reports_failures_invalid eng"
    and "run_impl eng rs (Some zero_info) e = (r, out', e')"
  shows "r = MP3_OK \<or> (\<exists>i'. out' = Some i' \<and> valid i' = 0)"
proof -
  from assms(1) have "\<forall>a b. case run_impl eng a (Some zero_info) b of
        (r, out', e') \<Rightarrow> r = MP3_OK \<or> (\<exists>i'. out' = Some i' \<and> valid i' = 0)"
    unfolding reports_failures_invalid_def .
  then have "case run_impl eng rs (Some zero_info) e of
        (r, out', e') \<Rightarrow> r = MP3_OK \<or> (\<exists>i'. out' = Some i' \<and> valid i' = 0)"
    by (elim allE)
  with assms(2) show ?thesis by simp
qed

lemma failed_session_run:
  assumes "reports_failures_invalid eng"
    and "mp3_session_run eng session (Some i) st = Some (r, out', st')" "r \<noteq> MP3_OK"
  shows "(session = None \<and> out' = Some i) \<or>
      (session \<noteq> None \<and> (\<exists>i'. out' = Some i' \<and> valid i' = 0))"
proof (cases session)
  case None
  then show ?thesis using assms(2) by (simp add: mp3_session_run_null)
next
  case (Some s)
  then obtain obj where obj: "session_heap st s = Some obj"
    using assms(2) by (auto simp: mp3_session_run_def split: option.splits)
  obtain rr oo ee where run: "run_impl eng (rust_session obj) (Some zero_info) (engine_state st) = (rr, oo, ee)"
    by (cases "run_impl eng (rust_session obj) (Some zero_info) (engine_state st)") auto
  with assms(2) Some obj have "rr = r" "oo = out'"
    by (simp_all add: run_live)
  with failing_engine_run [OF assms(1) run] assms(3) Some show ?thesis by simp
qed


lemma failed_analyze:
  assumes "reports_failures_invalid eng"
    and a: "mp3_analyze eng detector host_api (Some i) st = Some (r, out', st')"
    and ne: "r \<noteq> MP3_OK"
  shows "out' = Some i \<or> (\<exists>i'. out' = Some i' \<and> valid i' = 0)"
proof (cases "\<exists>d api. detector = Some d \<and> host_api = Some api \<and> read_at api \<noteq> None")
  case False
  then have "out' = Some i"
    using a by (auto simp: mp3_analyze_def mp3_session_init_def mp3_result_defs
        split: option.splits)
  then show ?thesis by simp
next
  case True
  then obtain d api where args: "detector = Some d" "host_api = Some api" "read_at api \<noteq> None"
    by blast
  show ?thesis
  proof (cases "free_cells st")
    case Nil
    then show ?thesis using a args by (simp add: mp3_analyze_checked)
  next
    case (Cons s rest)
    obtain ir rs e1 where init: "init_impl eng (Some api) None (engine_state st) = (ir, rs, e1)"
      by (cases "init_impl eng (Some api) None (engine_state st)") auto
    show ?thesis
    proof (cases "ir = MP3_OK")
      case False
      then show ?thesis using a args Cons init by (simp add: mp3_analyze_checked)
    next
      case True
      obtain rr oo e2 where run: "run_impl eng rs (Some zero_info) e1 = (rr, oo, e2)"
        by (cases "run_impl eng rs (Some zero_info) e1") auto
      with a args Cons init True have "rr = r" "oo = out'"
        by (simp_all add: mp3_analyze_checked)
      with failing_engine_run [OF assms(1) run] ne show ?thesis by simp
    qed
  qed
qed


text \<open>
  C2, as the claim states it, fails: \<open>mp3_session_run\<close> with a null session and
  \<open>mp3_analyze\<close> with a failing init return an error and leave the caller's record
  as it was, \<open>valid = 1\<close> included.
\<close>

theorem failed_run_record_counterexample:
  "mp3_session_run (weak_stubs :: (unit, unit) mp3_engine) None (Some stale_info)
      (initial_state [1, 2] ()) =
     Some (MP3_ERR_INVALID_PTR, Some stale_info, initial_state [1, 2] ()) \<and>
   MP3_ERR_INVALID_PTR \<noteq> MP3_OK \<and> valid stale_info = 1"
  by (simp add: mp3_session_run_null mp3_result_defs stale_info_def)

text \<open>
  C2, amended. Whenever \<open>mp3_session_run\<close> or \<open>mp3_analyze\<close> returns a code other
  than \<open>MP3_OK\<close>, the record is either exactly what the caller passed (the failures
  before the engine runs: a null session for \<open>mp3_session_run\<close>; a null argument, a
  missing read callback, no memory or a failed engine init for \<open>mp3_analyze\<close>), or
  it has \<open>valid = 0\<close>, provided the linked engine reports its own failures with
  \<open>valid = 0\<close>, as the weak stubs do. With a non-null session the record is zeroed
  before the engine sees it, so what comes back never depends on what it held.
\<close>

theorem failed_run_record:
  assumes "reports_failures_invalid eng"
  shows "(mp3_session_run eng session (Some i) st = Some (r, out', st') \<and> r \<noteq> MP3_OK \<longrightarrow>
            (session = None \<and> out' = Some i) \<or>
            (session \<noteq> None \<and> (\<exists>i'. out' = Some i' \<and> valid i' = 0))) \<and>
         (mp3_analyze eng detector host_api (Some i) st = Some (r, out', st') \<and> r \<noteq> MP3_OK \<longrightarrow>
            out' = Some i \<or> (\<exists>i'. out' = Some i' \<and> valid i' = 0)) \<and>
         (session \<noteq> None \<longrightarrow>
            mp3_session_run eng session (Some i) st =
              mp3_session_run eng session (Some zero_info) st)"
proof -
  have zeroed: "mp3_session_run eng session (Some i) st =
      mp3_session_run eng session (Some zero_info) st" if "session \<noteq> None"
    using that by (auto simp: mp3_session_run_def)
  from failed_session_run [OF assms, of session i st r out' st']
    failed_analyze [OF assms, of detector host_api i st r out' st'] zeroed
  show ?thesis by blast
qed

theorem failed_run_record_witness:
  "reports_failures_invalid spec_engine \<and>
   map_option (\<lambda>(r, out', st'). (r, out')) (mp3_analyze spec_engine (Some g_detector_addr)
      (Some (analyzeFile_host_api [])) (Some stale_info) (initial_state [1, 2] ())) =
     Some (MP3_ERR_INVALID_FORMAT, Some zero_info) \<and>
   MP3_ERR_INVALID_FORMAT \<noteq> MP3_OK \<and> valid zero_info = 0 \<and> valid stale_info = 1"
proof -
  obtain st' where run: "mp3_analyze spec_engine (Some g_detector_addr)
      (Some (analyzeFile_host_api [])) (Some stale_info) (initial_state [1, 2] ()) =
      Some (MP3_ERR_INVALID_FORMAT, Some zero_info, st')"
    by (simp add: mp3_analyze_checked engine_session_init_def engine_session_run_def
        engine_analyze_empty_file)
  have ne: "MP3_ERR_INVALID_FORMAT \<noteq> MP3_OK" by (simp add: mp3_result_defs)
  from failed_run_record [OF spec_engine_reports_failures_invalid, of None stale_info
      "initial_state [1, 2] ()" MP3_ERR_INVALID_FORMAT "Some zero_info" st'
      "Some g_detector_addr" "Some (analyzeFile_host_api [])"] run ne
  have "Some zero_info = Some stale_info \<or> (\<exists>i'. Some zero_info = Some i' \<and> valid i' = 0)"
    by blast
  then have "valid zero_info = 0" by (auto simp: zero_info_def stale_info_def)
  moreover have "valid stale_info = 1" by (simp add: stale_info_def)
  ultimately show ?thesis
    using run ne by (simp add: spec_engine_reports_failures_invalid)
qed


section \<open>Synthetic CBR streams through the modelled engine\<close>

subsection \<open>Tables and frame lengths\<close>

lemma bitrate_index_cases:
  "1 \<le> i \<Longrightarrow> i \<le> 14 \<Longrightarrow>
   i = 1 \<or> i = 2 \<or> i = 3 \<or> i = 4 \<or> i = 5 \<or> i = 6 \<or> i = 7 \<or> i = 8 \<or> i = 9 \<or> i = 10
   \<or> i = 11 \<or> i = 12 \<or> i = 13 \<or> (i::nat) = 14"
  by arith

lemma sample_rate_index_cases: "s \<le> 2 \<Longrightarrow> s = 0 \<or> s = 1 \<or> (s::nat) = 2"
  by arith

lemma bitrate_table_bounds:
  assumes "1 \<le> i" "i \<le> 14"
  shows "8 \<le> bitrate_table v l ! i \<and> bitrate_table v l ! i \<le> 448 \<and>
         (l = LayerI \<longrightarrow> 32 \<le> bitrate_table v l ! i)"
  using bitrate_index_cases [OF assms]
  by (cases v; cases l) auto

lemma sample_rate_table_bounds:
  assumes "s \<le> 2"
  shows "8000 \<le> sample_rate_table v ! s \<and> sample_rate_table v ! s \<le> 48000"
  using sample_rate_index_cases [OF assms]
  by (cases v) auto

lemma cbr_bitrate_bounds:
  assumes "cbr_valid p"
  shows "8000 \<le> cbr_bitrate p" "cbr_bitrate p \<le> 448000"
    "cbr_layer p = LayerI \<Longrightarrow> 32000 \<le> cbr_bitrate p"
  using assms bitrate_table_bounds [of "cbr_bitrate_index p" "cbr_version p" "cbr_layer p"]
  by (auto simp: cbr_valid_def cbr_bitrate_def)

lemma cbr_sample_rate_bounds:
  assumes "cbr_valid p"
  shows "8000 \<le> cbr_sample_rate p" "cbr_sample_rate p \<le> 48000"
  using assms sample_rate_table_bounds [of "cbr_sample_rate_index p" "cbr_version p"]
  by (auto simp: cbr_valid_def cbr_sample_rate_def)

lemma scaled_div_lower:
  assumes "c * b0 div r0 = k" "b0 \<le> b" "r \<le> r0" "0 < (r::nat)"
  shows "k \<le> c * b div r"
proof -
  have "c * b0 div r0 \<le> c * b div r0"
    using assms(2) by (intro div_le_mono mult_le_mono2)
  also have "\<dots> \<le> c * b div r"
    using assms(3,4) by (intro div_le_mono2)
  finally show ?thesis using assms(1) by simp
qed

lemma cbr_frame_length_ge:
  assumes "cbr_valid p"
  shows "12 \<le> cbr_frame_length p pad"
proof -
  note b = cbr_bitrate_bounds [OF assms] and r = cbr_sample_rate_bounds [OF assms]
  have pos: "0 < cbr_sample_rate p" using r by simp
  have a72: "12 \<le> 72 * cbr_bitrate p div cbr_sample_rate p"
    by (rule scaled_div_lower [of 72 8000 48000]) (use b r in simp_all)
  have a144: "24 \<le> 144 * cbr_bitrate p div cbr_sample_rate p"
    by (rule scaled_div_lower [of 144 8000 48000]) (use b r in simp_all)
  have a12: "8 \<le> 12 * cbr_bitrate p div cbr_sample_rate p" if "cbr_layer p = LayerI"
    by (rule scaled_div_lower [of 12 32000 48000]) (use b r that in simp_all)
  show ?thesis
    using a72 a144 a12
    by (cases "cbr_layer p"; cases "cbr_version p")
      (auto simp: cbr_frame_length_def frame_length_def)
qed

subsection \<open>The header bytes\<close>

lemma unat_byte_of_nat: "x < 256 \<Longrightarrow> unat (of_nat x :: 8 word) = x"
  by (simp add: unat_of_nat)

lemma version_bits_roundtrip: "version_of_bits (version_bits v) = Some v"
  by (cases v; simp add: version_bits_def version_of_bits_def)

lemma layer_bits_roundtrip: "layer_of_bits (layer_bits l) = Some l"
  by (cases l; simp add: layer_bits_def layer_of_bits_def)

lemma channel_bits_roundtrip: "channel_mode_of_bits (channel_bits m) = m"
  by (cases m; simp add: channel_bits_def channel_mode_of_bits_def)

lemma split_16:
  assumes "r < 16"
  shows "(i * 16 + r) div 16 = (i::nat)"
  using assms by simp

lemma byte2_arith:
  assumes "i \<le> 14" "s \<le> 2" "q = 0 \<or> q = 2"
  shows "i * 16 + s * 4 + q < 256"
    and "(i * 16 + s * 4 + q) div 16 = (i::nat)"
    and "(i * 16 + s * 4 + q) div 4 mod 4 = s"
    and "(i * 16 + s * 4 + q) div 2 mod 2 = q div 2"
    and "even (i * 16 + s * 4 + q)"
proof -
  have r: "s * 4 + q < 16" using assms by auto
  show "i * 16 + s * 4 + q < 256" using assms by auto
  show "(i * 16 + s * 4 + q) div 16 = i"
    using split_16 [OF r, of i] by (simp add: add.assoc)
  have "(i * 16 + s * 4 + q) div 4 = i * 4 + s"
    using assms(3) by auto
  then show "(i * 16 + s * 4 + q) div 4 mod 4 = s"
    using assms(2) by simp
  have "(i * 16 + s * 4 + q) div 2 = i * 8 + s * 2 + q div 2"
    using assms(3) by auto
  then show "(i * 16 + s * 4 + q) div 2 mod 2 = q div 2"
    using assms(3) by (elim disjE) (simp_all add: mod2_eq_if)
  show "even (i * 16 + s * 4 + q)" using assms(3) by auto
qed

lemma byte1_arith:
  "224 + version_bits v * 8 + layer_bits l * 2 + 1 < 256"
  "(224 + version_bits v * 8 + layer_bits l * 2 + 1) div 32 = 7"
  "(224 + version_bits v * 8 + layer_bits l * 2 + 1) div 8 mod 4 = version_bits v"
  "(224 + version_bits v * 8 + layer_bits l * 2 + 1) div 2 mod 4 = layer_bits l"
  "(224 + version_bits v * 8 + layer_bits l * 2 + 1) mod 2 = 1"
  by (cases v; cases l; simp add: version_bits_def layer_bits_def)+

lemma byte3_arith:
  "channel_bits m * 64 < 256" "(channel_bits m * 64) div 64 = channel_bits m"
  by (cases m; simp add: channel_bits_def)+

lemma decode_frame_header_fields:
  assumes "unat b1 div 32 = 7"
    and "unat b1 div 8 mod 4 = version_bits v"
    and "unat b1 div 2 mod 4 = layer_bits l"
    and "unat b1 mod 2 = 1"
    and "unat b2 div 16 = i" "1 \<le> i" "i \<le> 14"
    and "unat b2 div 4 mod 4 = s" "s \<le> 2"
    and "unat b2 div 2 mod 2 = (if pad then 1 else 0)"
    and "unat b3 div 64 = channel_bits m"
    and "4 \<le> frame_length v l (1000 * (bitrate_table v l ! i)) (sample_rate_table v ! s)
           (if pad then 1 else 0)"
  shows "decode_frame_header [0xFF, b1, b2, b3] =
     Some \<lparr>version = v, layer = l, bitrate_bps = 1000 * (bitrate_table v l ! i),
       sample_rate_hz = sample_rate_table v ! s, channel_mode = m, padding_bit = pad,
       protection_bit = True,
       frame_length_bytes = frame_length v l (1000 * (bitrate_table v l ! i))
         (sample_rate_table v ! s) (if pad then 1 else 0)\<rparr>"
  using assms
  by (simp add: decode_frame_header_def is_sync_def version_bits_roundtrip
      layer_bits_roundtrip channel_bits_roundtrip Let_def)


lemma decode_cbr_header:
  assumes "cbr_valid p"
  shows "decode_frame_header (cbr_header p pad) =
     Some \<lparr>version = cbr_version p, layer = cbr_layer p, bitrate_bps = cbr_bitrate p,
       sample_rate_hz = cbr_sample_rate p, channel_mode = cbr_mode p, padding_bit = pad,
       protection_bit = True, frame_length_bytes = cbr_frame_length p pad\<rparr>"
proof -
  define x1 where "x1 = 224 + version_bits (cbr_version p) * 8 + layer_bits (cbr_layer p) * 2 + 1"
  define q :: nat where "q = (if pad then 2 else 0)"
  define x2 where "x2 = cbr_bitrate_index p * 16 + cbr_sample_rate_index p * 4 + q"
  define x3 where "x3 = channel_bits (cbr_mode p) * 64"
  have v: "1 \<le> cbr_bitrate_index p" "cbr_bitrate_index p \<le> 14" "cbr_sample_rate_index p \<le> 2"
    using assms by (simp_all add: cbr_valid_def)
  have q: "q = 0 \<or> q = 2" "q div 2 = (if pad then 1 else 0)" by (simp_all add: q_def)
  have u1: "unat (of_nat x1 :: 8 word) = x1"
    unfolding x1_def by (rule unat_byte_of_nat) (rule byte1_arith)
  have u2: "unat (of_nat x2 :: 8 word) = x2"
    unfolding x2_def by (rule unat_byte_of_nat) (rule byte2_arith [OF v(2,3) q(1)])
  have u3: "unat (of_nat x3 :: 8 word) = x3"
    unfolding x3_def by (rule unat_byte_of_nat) (rule byte3_arith)
  have hdr: "cbr_header p pad = [0xFF, of_nat x1, of_nat x2, of_nat x3]"
    unfolding cbr_header_def x1_def x2_def x3_def q_def by (rule refl)
  have len: "4 \<le> frame_length (cbr_version p) (cbr_layer p)
      (1000 * (bitrate_table (cbr_version p) (cbr_layer p) ! cbr_bitrate_index p))
      (sample_rate_table (cbr_version p) ! cbr_sample_rate_index p) (if pad then 1 else 0)"
    using cbr_frame_length_ge [OF assms, of pad]
    by (simp add: cbr_frame_length_def cbr_bitrate_def cbr_sample_rate_def)
  have "decode_frame_header [0xFF, of_nat x1, of_nat x2, of_nat x3] =
     Some \<lparr>version = cbr_version p, layer = cbr_layer p,
       bitrate_bps = 1000 * (bitrate_table (cbr_version p) (cbr_layer p) ! cbr_bitrate_index p),
       sample_rate_hz = sample_rate_table (cbr_version p) ! cbr_sample_rate_index p,
       channel_mode = cbr_mode p, padding_bit = pad, protection_bit = True,
       frame_length_bytes = frame_length (cbr_version p) (cbr_layer p)
         (1000 * (bitrate_table (cbr_version p) (cbr_layer p) ! cbr_bitrate_index p))
         (sample_rate_table (cbr_version p) ! cbr_sample_rate_index p)
         (if pad then 1 else 0)\<rparr>"
  proof (rule decode_frame_header_fields)
    show "unat (of_nat x1 :: 8 word) div 32 = 7"
      unfolding u1 unfolding x1_def by (rule byte1_arith)
    show "unat (of_nat x1 :: 8 word) div 8 mod 4 = version_bits (cbr_version p)"
      unfolding u1 unfolding x1_def by (rule byte1_arith)
    show "unat (of_nat x1 :: 8 word) div 2 mod 4 = layer_bits (cbr_layer p)"
      unfolding u1 unfolding x1_def by (rule byte1_arith)
    show "unat (of_nat x1 :: 8 word) mod 2 = 1"
      unfolding u1 unfolding x1_def by (rule byte1_arith)
    show "unat (of_nat x2 :: 8 word) div 16 = cbr_bitrate_index p"
      unfolding u2 unfolding x2_def by (rule byte2_arith [OF v(2,3) q(1)])
    show "unat (of_nat x2 :: 8 word) div 4 mod 4 = cbr_sample_rate_index p"
      unfolding u2 unfolding x2_def by (rule byte2_arith [OF v(2,3) q(1)])
    show "unat (of_nat x2 :: 8 word) div 2 mod 2 = (if pad then 1 else 0)"
      unfolding u2 q(2) [symmetric] unfolding x2_def by (rule byte2_arith [OF v(2,3) q(1)])
    show "unat (of_nat x3 :: 8 word) div 64 = channel_bits (cbr_mode p)"
      unfolding u3 unfolding x3_def by (rule byte3_arith)
  qed (use v len in simp_all)
  then show ?thesis
    unfolding hdr by (simp add: cbr_bitrate_def cbr_sample_rate_def cbr_frame_length_def)
qed

text \<open>Every byte of a synthetic stream is plain.\<close>

lemma plain_cbr_header:
  assumes "cbr_valid p"
  shows "\<forall>b \<in> set (cbr_header p pad). plain_byte b"
proof -
  define x1 where "x1 = 224 + version_bits (cbr_version p) * 8 + layer_bits (cbr_layer p) * 2 + 1"
  define q :: nat where "q = (if pad then 2 else 0)"
  define x2 where "x2 = cbr_bitrate_index p * 16 + cbr_sample_rate_index p * 4 + q"
  define x3 where "x3 = channel_bits (cbr_mode p) * 64"
  have v: "cbr_bitrate_index p \<le> 14" "cbr_sample_rate_index p \<le> 2"
    using assms by (simp_all add: cbr_valid_def)
  have q: "q = 0 \<or> q = 2" by (simp add: q_def)
  have u1: "unat (of_nat x1 :: 8 word) = x1"
    unfolding x1_def by (rule unat_byte_of_nat) (rule byte1_arith)
  have u2: "unat (of_nat x2 :: 8 word) = x2"
    unfolding x2_def by (rule unat_byte_of_nat) (rule byte2_arith [OF v q])
  have u3: "unat (of_nat x3 :: 8 word) = x3"
    unfolding x3_def by (rule unat_byte_of_nat) (rule byte3_arith)
  have hdr: "cbr_header p pad = [0xFF, of_nat x1, of_nat x2, of_nat x3]"
    unfolding cbr_header_def x1_def x2_def x3_def q_def by (rule refl)
  have "224 \<le> x1" by (simp add: x1_def)
  then have p1: "plain_byte (of_nat x1)" unfolding plain_byte_def u1 by simp
  have "even x2" unfolding x2_def by (rule byte2_arith [OF v q])
  then have p2: "plain_byte (of_nat x2)" unfolding plain_byte_def u2 by simp
  have "even x3" by (simp add: x3_def)
  then have p3: "plain_byte (of_nat x3)" unfolding plain_byte_def u3 by simp
  have p0: "plain_byte 0xFF" by (simp add: plain_byte_def)
  show ?thesis unfolding hdr using p0 p1 p2 p3 by simp
qed

lemma plain_cbr_frame:
  assumes "cbr_valid p"
  shows "\<forall>b \<in> set (cbr_frame p pad). plain_byte b"
  using plain_cbr_header [OF assms, of pad]
  by (auto simp: cbr_frame_def plain_byte_def)

lemma plain_cbr_stream:
  assumes "cbr_valid p"
  shows "\<forall>b \<in> set (cbr_stream p pads). plain_byte b"
  using plain_cbr_frame [OF assms]
  by (auto simp: cbr_stream_def)

lemma plain_nth:
  assumes "\<forall>b \<in> set bs. plain_byte b" "k < length bs" "\<not> plain_byte c"
  shows "bs ! k \<noteq> c"
  using assms nth_mem by metis

lemma not_plain: "\<not> plain_byte 0x49" "\<not> plain_byte 0x47" "\<not> plain_byte 0x69"
  "\<not> plain_byte 0x6F"
  by (simp_all add: plain_byte_def)

lemma plain_no_id3v2:
  assumes "\<forall>b \<in> set bs. plain_byte b"
  shows "id3v2_tag_size bs = None"
proof -
  have "bs ! 0 \<noteq> 0x49" if "length bs = 10"
    by (rule plain_nth [OF assms]) (use that not_plain in simp_all)
  then show ?thesis by (auto simp: id3v2_tag_size_def)
qed

lemma plain_no_id3v1:
  assumes "\<forall>b \<in> set bs. plain_byte b"
  shows "\<not> id3v1_tag bs"
proof -
  have "bs ! 2 \<noteq> 0x47" if "length bs = 128"
    by (rule plain_nth [OF assms]) (use that not_plain in simp_all)
  then show ?thesis by (auto simp: id3v1_tag_def)
qed

lemma plain_no_signature:
  assumes "\<forall>b \<in> set bs. plain_byte b"
  shows "bs \<noteq> [0x58, 0x69, 0x6E, 0x67]" "bs \<noteq> [0x49, 0x6E, 0x66, 0x6F]"
    "bs \<noteq> [0x56, 0x42, 0x52, 0x49]"
  using assms not_plain by auto

subsection \<open>Reads and the layout of the stream\<close>

lemma unat_u64_of_nat: "x < 2 ^ 64 \<Longrightarrow> unat (of_nat x :: 64 word) = x"
  by (simp add: unat_of_nat)

lemma total_size_file:
  assumes "0 < length file" "length file < 2 ^ 63"
  shows "total_size (analyzeFile_host_api file) = Some (length file)"
proof -
  have lt: "length file < 2 ^ 64" using assms(2) by simp
  have u: "unat (of_nat (length file) :: 64 word) = length file"
    using lt by (rule unat_u64_of_nat)
  have "(of_nat (length file) :: 64 word) \<noteq> 0"
    using u assms(1) by (metis less_numeral_extra(3) unat_0)
  then show ?thesis
    using u by (simp add: total_size_def analyzeFile_host_api_def)
qed

lemma user_ctx_analyzeFile_host_api [simp]:
  "user_ctx (analyzeFile_host_api file) = Some file_ctx_addr"
  by (simp add: analyzeFile_host_api_def)

lemma byte_source_read_file:
  assumes "0 < length file" "length file < 2 ^ 63"
  shows "byte_source_read (analyzeFile_host_api file) off len = Inr (take len (drop off file))"
proof (cases "min len (length file - off) = 0")
  case True
  then have "take len (drop off file) = []" by auto
  with True show ?thesis
    by (simp add: byte_source_read_def total_size_file [OF assms])
next
  case False
  then have off: "off < length file" by simp
  then have "off < 2 ^ 64" "off < 2 ^ 63" using assms(2) by simp_all
  then have u: "unat (of_nat off :: 64 word) = off" "\<not> 2 ^ 63 \<le> unat (of_nat off :: 64 word)"
    by (simp_all add: unat_u64_of_nat)
  have "take (min len (length file - off)) (drop off file) = take len (drop off file)"
    by (simp add: min_def)
  then show ?thesis
    using False u
    by (simp add: byte_source_read_def total_size_file [OF assms] host_read_at_def
        MP3_OK_def Let_def)
qed

lemma length_cbr_frame:
  assumes "cbr_valid p"
  shows "length (cbr_frame p pad) = cbr_frame_length p pad"
  using cbr_frame_length_ge [OF assms, of pad]
  by (simp add: cbr_frame_def cbr_header_def)

lemma length_cbr_stream:
  assumes "cbr_valid p"
  shows "length (cbr_stream p pads) = sum_list (map (cbr_frame_length p) pads)"
  by (simp add: cbr_stream_def length_concat length_cbr_frame [OF assms] comp_def)

lemma cbr_stream_Cons:
  "cbr_stream p (pad # pads) =
     cbr_header p pad @ replicate (cbr_frame_length p pad - 4) 0 @ cbr_stream p pads"
  by (simp add: cbr_stream_def cbr_frame_def)

lemma length_cbr_header [simp]: "length (cbr_header p pad) = 4"
  by (simp add: cbr_header_def)

lemma cbr_stream_head:
  "take 4 (cbr_stream p (pad # pads)) = cbr_header p pad"
  by (simp add: cbr_stream_Cons)

lemma cbr_stream_next:
  assumes "cbr_valid p"
  shows "drop (cbr_frame_length p pad) (cbr_stream p (pad # pads)) = cbr_stream p pads"
  using length_cbr_frame [OF assms, of pad]
  by (simp add: cbr_stream_def)

lemma cbr_header_is_sync:
  assumes "cbr_valid p"
  shows "is_sync (take 2 (cbr_header p pad))"
  using decode_cbr_header [OF assms, of pad]
  by (auto simp: decode_frame_header_def is_sync_def cbr_header_def split: if_splits)

lemma cbr_stream_next_sync:
  assumes "cbr_valid p"
  shows "length (take 2 (cbr_stream p pads)) < 2 \<or> is_sync (take 2 (cbr_stream p pads))"
proof (cases pads)
  case Nil
  then show ?thesis by (simp add: cbr_stream_def)
next
  case (Cons pad rest)
  have "take 2 (cbr_stream p (pad # rest)) = take 2 (cbr_header p pad)"
    by (simp add: cbr_stream_Cons)
  then show ?thesis using Cons cbr_header_is_sync [OF assms, of pad] by simp
qed

subsection \<open>The stages of the analysis\<close>

lemma plain_read:
  assumes "cbr_valid p" "0 < length (cbr_stream p pads)" "length (cbr_stream p pads) < 2 ^ 63"
  obtains bs where "byte_source_read (analyzeFile_host_api (cbr_stream p pads)) off len = Inr bs"
    and "\<forall>b \<in> set bs. plain_byte b"
proof
  show "byte_source_read (analyzeFile_host_api (cbr_stream p pads)) off len =
      Inr (take len (drop off (cbr_stream p pads)))"
    by (rule byte_source_read_file [OF assms(2,3)])
  show "\<forall>b \<in> set (take len (drop off (cbr_stream p pads))). plain_byte b"
    using plain_cbr_stream [OF assms(1), of pads] by (meson in_set_dropD in_set_takeD)
qed

lemma tag_skipper_cbr:
  assumes "cbr_valid p" "0 < length (cbr_stream p pads)" "length (cbr_stream p pads) < 2 ^ 63"
  shows "tag_skipper (analyzeFile_host_api (cbr_stream p pads)) =
     Inr (0, Some (length (cbr_stream p pads)))"
proof -
  obtain h where h: "byte_source_read (analyzeFile_host_api (cbr_stream p pads)) 0 10 = Inr h"
    "\<forall>b \<in> set h. plain_byte b"
    by (rule plain_read [OF assms])
  obtain t where t: "byte_source_read (analyzeFile_host_api (cbr_stream p pads))
      (length (cbr_stream p pads) - 128) 128 = Inr t" "\<forall>b \<in> set t. plain_byte b"
    by (rule plain_read [OF assms])
  show ?thesis
    by (simp add: tag_skipper_def h(1) t(1) total_size_file [OF assms(2,3)]
        plain_no_id3v2 [OF h(2)] plain_no_id3v1 [OF t(2)])
qed

lemma frame_synchronizer_cbr:
  assumes "cbr_valid p" "length (cbr_stream p (pad # pads)) < 2 ^ 63"
  shows "frame_synchronizer (analyzeFile_host_api (cbr_stream p (pad # pads))) scan_window 0 =
     Inr (Some (0, \<lparr>version = cbr_version p, layer = cbr_layer p, bitrate_bps = cbr_bitrate p,
       sample_rate_hz = cbr_sample_rate p, channel_mode = cbr_mode p, padding_bit = pad,
       protection_bit = True, frame_length_bytes = cbr_frame_length p pad\<rparr>))"
proof -
  have pos: "0 < length (cbr_stream p (pad # pads))"
    by (simp add: cbr_stream_Cons)
  note rd = byte_source_read_file [OF pos assms(2)]
  have nxt: "length (take 2 (cbr_stream p pads)) < 2 \<or> is_sync (take 2 (cbr_stream p pads))"
    by (rule cbr_stream_next_sync [OF assms(1)])
  have r1: "byte_source_read (analyzeFile_host_api (cbr_stream p (pad # pads))) 0 4 =
      Inr (cbr_header p pad)"
    by (simp add: rd cbr_stream_head)
  have r2: "byte_source_read (analyzeFile_host_api (cbr_stream p (pad # pads)))
      (cbr_frame_length p pad) 2 = Inr (take 2 (cbr_stream p pads))"
    by (simp add: rd cbr_stream_next [OF assms(1)])
  show ?thesis
    apply (subst frame_synchronizer.simps)
    using nxt
    apply (simp add: r1 r2 decode_cbr_header [OF assms(1)] scan_window_def)
    done
qed

lemma vbr_header_extractor_cbr:
  assumes "cbr_valid p" "0 < length (cbr_stream p pads)" "length (cbr_stream p pads) < 2 ^ 63"
  shows "vbr_header_extractor (analyzeFile_host_api (cbr_stream p pads)) k h =
     Inr \<lparr>kind = NoVbr, frame_count = None, byte_count = None, toc = None\<rparr>"
proof -
  obtain x where x: "byte_source_read (analyzeFile_host_api (cbr_stream p pads))
      (k + 4 + side_info_size (version h) (channel_mode h)) 4 = Inr x"
    "\<forall>b \<in> set x. plain_byte b"
    by (rule plain_read [OF assms])
  obtain y where y: "byte_source_read (analyzeFile_host_api (cbr_stream p pads))
      (k + 4 + 36) 4 = Inr y" "\<forall>b \<in> set y. plain_byte b"
    by (rule plain_read [OF assms])
  show ?thesis
    using x(1) y(1) plain_no_signature [OF x(2)] plain_no_signature [OF y(2)]
    by (simp add: vbr_header_extractor_def Let_def)
qed

lemma frame_covers_bitrate:
  assumes "cbr_valid p"
  shows "cbr_bitrate p \<le> cbr_frame_length p pad * 8000"
proof -
  note b = cbr_bitrate_bounds [OF assms] and r = cbr_sample_rate_bounds [OF assms]
  have pos: "0 < cbr_sample_rate p" using r by simp
  have d72: "72 * cbr_bitrate p div 48000 \<le> 72 * cbr_bitrate p div cbr_sample_rate p"
    using r pos by (intro div_le_mono2) simp_all
  have d144: "144 * cbr_bitrate p div 48000 \<le> 144 * cbr_bitrate p div cbr_sample_rate p"
    using r pos by (intro div_le_mono2) simp_all
  have d12: "12 * cbr_bitrate p div 48000 \<le> 12 * cbr_bitrate p div cbr_sample_rate p"
    using r pos by (intro div_le_mono2) simp_all
  have c72: "cbr_bitrate p \<le> (72 * cbr_bitrate p div 48000) * 8000"
    using b(1) by arith
  have c144: "cbr_bitrate p \<le> (144 * cbr_bitrate p div 48000) * 8000"
    using b(1) by arith
  have c12: "cbr_bitrate p \<le> (12 * cbr_bitrate p div 48000) * 4 * 8000"
    if "cbr_layer p = LayerI"
    using b(3) [OF that] by arith
  show ?thesis
  proof (cases "cbr_layer p")
    case LayerI
    have "cbr_bitrate p \<le> (12 * cbr_bitrate p div cbr_sample_rate p) * 4 * 8000"
      using c12 [OF LayerI] d12 by (meson le_trans mult_le_mono1)
    then show ?thesis
      using LayerI by (simp add: cbr_frame_length_def frame_length_def add_mult_distrib)
  next
    case LayerII
    have "cbr_bitrate p \<le> (72 * cbr_bitrate p div cbr_sample_rate p) * 8000"
      "cbr_bitrate p \<le> (144 * cbr_bitrate p div cbr_sample_rate p) * 8000"
      using c72 d72 c144 d144 by (meson le_trans mult_le_mono1)+
    then show ?thesis
      using LayerII
      by (cases "cbr_version p")
        (simp_all add: cbr_frame_length_def frame_length_def add_mult_distrib)
  next
    case LayerIII
    have "cbr_bitrate p \<le> (72 * cbr_bitrate p div cbr_sample_rate p) * 8000"
      "cbr_bitrate p \<le> (144 * cbr_bitrate p div cbr_sample_rate p) * 8000"
      using c72 d72 c144 d144 by (meson le_trans mult_le_mono1)+
    then show ?thesis
      using LayerIII
      by (cases "cbr_version p")
        (simp_all add: cbr_frame_length_def frame_length_def add_mult_distrib)
  qed
qed

lemma cbr_duration_pos:
  assumes "cbr_valid p"
  shows "0 < length (cbr_stream p (pad # pads)) * 8 * 1000 div cbr_bitrate p"
proof -
  have "cbr_frame_length p pad \<le> length (cbr_stream p (pad # pads))"
    by (simp add: length_cbr_stream [OF assms])
  then have "cbr_frame_length p pad * 8000 \<le> length (cbr_stream p (pad # pads)) * 8 * 1000"
    by simp
  with frame_covers_bitrate [OF assms, of pad]
  have "cbr_bitrate p \<le> length (cbr_stream p (pad # pads)) * 8 * 1000"
    by (rule le_trans)
  moreover have "0 < cbr_bitrate p" using cbr_bitrate_bounds(1) [OF assms] by simp
  ultimately show ?thesis by (simp add: div_greater_zero_iff)
qed

lemma cbr_size_bound:
  assumes "cbr_valid p" "length file * 8 * 1000 div cbr_bitrate p < 2 ^ 32"
  shows "length file < 2 ^ 63"
proof -
  have pos: "0 < cbr_bitrate p" using cbr_bitrate_bounds(1) [OF assms(1)] by simp
  have "length file * 8 * 1000 < 2 ^ 32 * cbr_bitrate p"
    using assms(2) pos by (simp add: div_less_iff_less_mult)
  also have "\<dots> \<le> 2 ^ 32 * 448000"
    using cbr_bitrate_bounds(2) [OF assms(1)] by simp
  finally show ?thesis by simp
qed

lemma engine_analyze_cbr:
  assumes "cbr_valid p" "pads \<noteq> []"
    and "length (cbr_stream p pads) * 8 * 1000 div cbr_bitrate p < 2 ^ 32"
  shows "engine_analyze (analyzeFile_host_api (cbr_stream p pads)) =
     Inr (cbr_info p (length (cbr_stream p pads)))"
proof -
  obtain pad rest where pads: "pads = pad # rest"
    using assms(2) by (cases pads) auto
  let ?file = "cbr_stream p (pad # rest)"
  have lt: "length ?file < 2 ^ 63"
    using cbr_size_bound [OF assms(1), of ?file] assms(3) pads by simp
  have pos: "0 < length ?file" by (simp add: cbr_stream_Cons)
  have dpos: "0 < length ?file * 8 * 1000 div cbr_bitrate p"
    by (rule cbr_duration_pos [OF assms(1)])
  have dlt: "length ?file * 8 * 1000 div cbr_bitrate p < 2 ^ 32"
    using assms(3) pads by simp
  note b = cbr_bitrate_bounds [OF assms(1)] and r = cbr_sample_rate_bounds [OF assms(1)]
  have small: "cbr_bitrate p < 2 ^ 32" "cbr_sample_rate p < 2 ^ 32" "length ?file < 2 ^ 64"
    "0 < cbr_bitrate p" "0 < cbr_sample_rate p"
    using b r lt by simp_all
  let ?h = "\<lparr>version = cbr_version p, layer = cbr_layer p, bitrate_bps = cbr_bitrate p,
       sample_rate_hz = cbr_sample_rate p, channel_mode = cbr_mode p, padding_bit = pad,
       protection_bit = True, frame_length_bytes = cbr_frame_length p pad\<rparr>"
  let ?est = "\<lparr>est_duration_ms = length ?file * 8 * 1000 div cbr_bitrate p,
       est_bitrate_bps = cbr_bitrate p, est_data_size_bytes = length ?file\<rparr>"
  have est: "duration_estimator (analyzeFile_host_api ?file) ?h
      \<lparr>kind = NoVbr, frame_count = None, byte_count = None, toc = None\<rparr> 0
      (Some (length ?file)) = Inr ?est"
    using small(4) by (simp add: duration_estimator_def bytes_estimate_def)
  have no: "\<not> 2 ^ 32 \<le> length ?file * 8 * 1000 div cbr_bitrate p"
    "\<not> 2 ^ 32 \<le> cbr_bitrate p" "\<not> 2 ^ 32 \<le> cbr_sample_rate p"
    "\<not> 2 ^ 64 \<le> length ?file"
    using dlt small(1-3) by (simp_all only: not_le)
  have asm: "result_assembler ?h ?est = Inr (cbr_info p (length ?file))"
    using dpos small(5) no
    by (simp add: result_assembler_def cbr_info_def)
  have "engine_analyze (analyzeFile_host_api ?file) = Inr (cbr_info p (length ?file))"
    unfolding engine_analyze_def
    by (simp only: tag_skipper_cbr [OF assms(1) pos lt] sum.case prod.case add_0
        frame_synchronizer_cbr [OF assms(1) lt] option.case
        vbr_header_extractor_cbr [OF assms(1) pos lt] est asm)
  then show ?thesis using pads by simp
qed

lemma analyzeFile_cbr:
  assumes "cbr_valid p" "pads \<noteq> []"
    and "length (cbr_stream p pads) * 8 * 1000 div cbr_bitrate p < 2 ^ 32"
    and "free_cells st = s # rest"
  shows "analyzeFile spec_engine (Some d) (cbr_stream p pads) st =
     Some (MP3_OK, Some (cbr_info p (length (cbr_stream p pads))),
           st\<lparr>session_heap := (session_heap st)(s := None)\<rparr>)"
  using assms(4)
  by (simp add: analyzeFile_def mp3_analyze_checked engine_session_init_def
      engine_session_run_def engine_session_deinit_def engine_analyze_cbr [OF assms(1-3)])

lemma div_le_of_cross_le:
  assumes "a * r \<le> x * b" "0 < (b::nat)" "0 < r"
  shows "a div b \<le> x div r"
proof -
  have "(a div b) * b \<le> a" by simp
  then have "((a div b) * b) * r \<le> a * r" by (rule mult_le_mono1)
  also have "\<dots> \<le> x * b" by (rule assms(1))
  finally have "((a div b) * r) * b \<le> x * b" by (simp add: ac_simps)
  then have "(a div b) * r \<le> x" using assms(2) by simp
  then show ?thesis using assms(3) by (simp add: less_eq_div_iff_mult_less_eq)
qed


lemma div_add_le: "(x + y) div r \<le> x div r + y div r + (1::nat)"
proof (cases "r = 0")
  case True
  then show ?thesis by simp
next
  case False
  then have "x mod r < r" "y mod r < r" by simp_all
  then have "x mod r + y mod r < 2 * r" by linarith
  then have "(x mod r + y mod r) div r < 2" by (rule less_mult_imp_div_less)
  moreover have "(x + y) div r = x div r + y div r + (x mod r + y mod r) div r"
    by (rule div_add1_eq)
  ultimately show ?thesis by linarith
qed

lemma near_quotients:
  assumes "a * r \<le> (c + f) * b" "0 < (b::nat)" "0 < r"
  shows "a div b \<le> c div r + f div r + 1"
  using div_le_of_cross_le [OF assms] div_add_le [of c f r] by (rule le_trans)

lemma equal_quotients:
  assumes "a * r = c * b" "0 < (b::nat)" "0 < r"
  shows "a div b = c div r"
proof (rule antisym)
  show "a div b \<le> c div r"
    by (rule div_le_of_cross_le) (use assms in simp_all)
  show "c div r \<le> a div b"
    by (rule div_le_of_cross_le) (use assms in simp_all)
qed


lemma cbr_tolerance:
  fixes bytes n spf r b :: nat
  assumes "0 < b" "0 < r"
  shows "(bytes * 8 * r \<le> (n + 1) * spf * b \<longrightarrow>
           bytes * 8 * 1000 div b \<le> n * spf * 1000 div r + spf * 1000 div r + 1) \<and>
         (n * spf * b \<le> bytes * 8 * r + spf * b \<longrightarrow>
           n * spf * 1000 div r \<le> bytes * 8 * 1000 div b + spf * 1000 div r + 1) \<and>
         (bytes * 8 * r = n * spf * b \<longrightarrow>
           bytes * 8 * 1000 div b = n * spf * 1000 div r)"
proof (intro conjI impI)
  assume h: "bytes * 8 * r \<le> (n + 1) * spf * b"
  have "(bytes * 8 * 1000) * r = 1000 * (bytes * 8 * r)" by simp
  also have "\<dots> \<le> 1000 * ((n + 1) * spf * b)" using h by (rule mult_le_mono2)
  also have "\<dots> = (n * spf * 1000 + spf * 1000) * b" by (simp add: algebra_simps)
  finally show "bytes * 8 * 1000 div b \<le> n * spf * 1000 div r + spf * 1000 div r + 1"
    using assms by (rule near_quotients)
next
  assume h: "n * spf * b \<le> bytes * 8 * r + spf * b"
  let ?c = "n * spf * 1000" and ?f = "spf * 1000" and ?a = "bytes * 8 * 1000"
  have "(?c - ?f) * b = 1000 * (n * spf * b - spf * b)"
    by (simp add: algebra_simps diff_mult_distrib2)
  also have "\<dots> \<le> 1000 * (bytes * 8 * r)"
    using h by (intro mult_le_mono2) simp
  also have "\<dots> = ?a * r" by simp
  finally have "(?c - ?f) div r \<le> ?a div b"
    using assms(2,1) by (rule div_le_of_cross_le)
  moreover have "?c div r \<le> (?c - ?f) div r + ?f div r + 1"
  proof (cases "?f \<le> ?c")
    case True
    then have "?c = (?c - ?f) + ?f" by simp
    then show ?thesis using div_add_le [of "?c - ?f" ?f r] by simp
  next
    case False
    then have "?c div r \<le> ?f div r" by (intro div_le_mono) simp
    then show ?thesis by simp
  qed
  ultimately show "?c div r \<le> ?a div b + ?f div r + 1" by linarith
next
  assume h: "bytes * 8 * r = n * spf * b"
  have "(bytes * 8 * 1000) * r = 1000 * (bytes * 8 * r)" by simp
  also have "\<dots> = (n * spf * 1000) * b" using h by simp
  finally show "bytes * 8 * 1000 div b = n * spf * 1000 div r"
    using assms by (rule equal_quotients)
qed

lemma unat_u32_of_nat: "x < 2 ^ 32 \<Longrightarrow> unat (of_nat x :: 32 word) = x"
  by (simp add: unat_of_nat)

lemma cbr_info_fields:
  assumes "bytes * 8 * 1000 div cbr_bitrate p < 2 ^ 32"
  shows "valid (cbr_info p bytes) = 1"
    and "unat (duration_ms (cbr_info p bytes)) = bytes * 8 * 1000 div cbr_bitrate p"
  using unat_u32_of_nat [OF assms] by (simp_all add: cbr_info_def)


lemma cbr_128k_44100_facts:
  "cbr_valid cbr_128k_44100"
  "cbr_bitrate cbr_128k_44100 = 128000"
  "cbr_sample_rate cbr_128k_44100 = 44100"
  "cbr_samples_per_frame cbr_128k_44100 = 1152"
  "cbr_frame_length cbr_128k_44100 False = 417"
  by (simp_all add: cbr_128k_44100_def cbr_valid_def cbr_bitrate_def cbr_sample_rate_def
      cbr_samples_per_frame_def samples_per_frame_def cbr_frame_length_def frame_length_def)

lemma cbr_128k_48000_facts:
  "cbr_valid cbr_128k_48000"
  "cbr_bitrate cbr_128k_48000 = 128000"
  "cbr_sample_rate cbr_128k_48000 = 48000"
  "cbr_samples_per_frame cbr_128k_48000 = 1152"
  "cbr_frame_length cbr_128k_48000 False = 384"
  by (simp_all add: cbr_128k_48000_def cbr_valid_def cbr_bitrate_def cbr_sample_rate_def
      cbr_samples_per_frame_def samples_per_frame_def cbr_frame_length_def frame_length_def)

lemma length_unpadded_stream:
  assumes "cbr_valid p"
  shows "length (cbr_stream p (replicate n False)) = n * cbr_frame_length p False"
  by (simp add: length_cbr_stream [OF assms] sum_list_replicate)


subsection \<open>Padding and the byte count of a stream\<close>

text \<open>
  A stream padded by the carried-remainder rule has \<open>N * numerator div R\<close> slots:
  its byte count follows the samples of its frames to within one slot.
\<close>

lemma cbr_frame_length_slots:
  "cbr_frame_length p pad =
     (cbr_slot_numerator p div cbr_sample_rate p + (if pad then 1 else 0)) * cbr_slot_bytes p"
  by (cases "cbr_layer p"; cases "cbr_version p")
    (simp_all add: cbr_frame_length_def frame_length_def cbr_slot_numerator_def
      cbr_slot_bytes_def)

lemma length_padding_bits: "length (padding_bits m r acc n) = n"
  by (induction n arbitrary: acc) simp_all

lemma count_padding_bits:
  assumes "m < r" "acc < r"
  shows "sum_list (map (\<lambda>pad. if pad then 1 else 0) (padding_bits m r acc n)) =
     (acc + n * m) div r"
  using assms(2)
proof (induction n arbitrary: acc)
  case 0
  then show ?case by simp
next
  case (Suc n)
  show ?case
  proof (cases "r \<le> acc + m")
    case True
    have lt: "acc + m - r < r" using True Suc.prems assms(1) by simp
    have "acc + Suc n * m = (acc + m - r + n * m) + r" using True by simp
    moreover have "((acc + m - r + n * m) + r) div r = (acc + m - r + n * m) div r + 1"
      using Suc.prems by (intro div_add_self2) simp
    ultimately have "(acc + Suc n * m) div r = (acc + m - r + n * m) div r + 1"
      by (simp only:)
    then show ?thesis using True Suc.IH [OF lt] by simp
  next
    case False
    then have lt: "acc + m < r" by simp
    show ?thesis using False Suc.IH [OF lt] by (simp add: add.assoc)
  qed
qed

lemma sum_frame_lengths:
  "sum_list (map (\<lambda>pad. (q + (if pad then 1 else 0)) * slot) pads) =
     (length pads * q + sum_list (map (\<lambda>pad. if pad then 1 else 0) pads)) * (slot::nat)"
  by (induction pads) (simp_all add: algebra_simps)

lemma div_of_scaled:
  assumes "0 < (r::nat)"
  shows "n * (x div r) + n * (x mod r) div r = n * x div r"
proof -
  have "n * x = n * (x mod r) + (n * (x div r)) * r"
    by (simp add: algebra_simps flip: distrib_left)
  then have "n * x div r = (n * (x mod r) + (n * (x div r)) * r) div r" by simp
  also have "\<dots> = n * (x div r) + n * (x mod r) div r"
    using assms by simp
  finally show ?thesis by simp
qed

lemma length_padded_stream:
  assumes "cbr_valid p"
  shows "length (cbr_stream p (cbr_padding p n)) =
     (n * cbr_slot_numerator p div cbr_sample_rate p) * cbr_slot_bytes p"
proof -
  have pos: "0 < cbr_sample_rate p"
    using cbr_sample_rate_bounds(1) [OF assms] by simp
  let ?m = "cbr_slot_numerator p mod cbr_sample_rate p"
  have m: "?m < cbr_sample_rate p" using pos by simp
  have "length (cbr_stream p (cbr_padding p n)) =
      (n * (cbr_slot_numerator p div cbr_sample_rate p) + n * ?m div cbr_sample_rate p)
        * cbr_slot_bytes p"
    unfolding length_cbr_stream [OF assms] cbr_frame_length_slots sum_frame_lengths
    by (simp add: cbr_padding_def length_padding_bits count_padding_bits [OF m pos])
  then show ?thesis by (simp only: div_of_scaled [OF pos])
qed

lemma cbr_samples_match_bits:
  assumes "cbr_samples_match p"
  shows "cbr_samples_per_frame p * cbr_bitrate p =
     8 * cbr_slot_bytes p * cbr_slot_numerator p"
  using assms
  by (cases "cbr_layer p"; cases "cbr_version p")
    (simp_all add: cbr_samples_match_def cbr_samples_per_frame_def samples_per_frame_def
      cbr_slot_bytes_def cbr_slot_numerator_def)

lemma cbr_slot_duration:
  assumes "cbr_valid p"
  shows "8000 * cbr_slot_bytes p \<le> cbr_bitrate p"
  using cbr_bitrate_bounds [OF assms]
  by (cases "cbr_layer p") (simp_all add: cbr_slot_bytes_def)

lemma cbr_frame_duration_ge:
  assumes "cbr_valid p"
  shows "8 \<le> cbr_samples_per_frame p * 1000 div cbr_sample_rate p"
proof -
  note r = cbr_sample_rate_bounds [OF assms]
  have "384 \<le> cbr_samples_per_frame p"
    by (cases "cbr_layer p"; cases "cbr_version p")
      (simp_all add: cbr_samples_per_frame_def samples_per_frame_def)
  then have "(1000::nat) * 384 \<le> 1000 * cbr_samples_per_frame p"
    by (rule mult_le_mono2)
  then have "8 \<le> 1000 * cbr_samples_per_frame p div 48000"
    by (simp add: less_eq_div_iff_mult_less_eq)
  also have "\<dots> \<le> 1000 * cbr_samples_per_frame p div cbr_sample_rate p"
    using r by (intro div_le_mono2) simp_all
  finally show ?thesis by (simp add: mult.commute)
qed

lemma padded_tolerance:
  fixes n num r b slot spf :: nat
  assumes "0 < r" "0 < b" "spf * b = 8 * slot * num" "8000 * slot \<le> b"
  shows "(n * num div r) * slot * 8 * 1000 div b \<le> n * spf * 1000 div r"
    and "n * spf * 1000 div r \<le> (n * num div r) * slot * 8 * 1000 div b + 1"
proof -
  define k where "k = n * num div r"
  have low: "k * r \<le> n * num" unfolding k_def by simp
  have "n * num = k * r + n * num mod r" unfolding k_def by simp
  moreover have "n * num mod r < r" using assms(1) by simp
  ultimately have high: "n * num \<le> k * r + r" by linarith
  have total: "(n * spf * 1000) * b = 8000 * slot * (n * num)"
  proof -
    have "(n * spf * 1000) * b = 1000 * n * (spf * b)" by simp
    also have "\<dots> = 1000 * n * (8 * slot * num)" by (simp only: assms(3))
    also have "\<dots> = 8000 * slot * (n * num)" by simp
    finally show ?thesis .
  qed
  have "(k * slot * 8 * 1000) * r = 8000 * slot * (k * r)" by simp
  also have "\<dots> \<le> 8000 * slot * (n * num)" using low by (rule mult_le_mono2)
  also have "\<dots> = (n * spf * 1000) * b" by (simp only: total)
  finally have "k * slot * 8 * 1000 div b \<le> n * spf * 1000 div r"
    using assms(2,1) by (rule div_le_of_cross_le)
  then show "(n * num div r) * slot * 8 * 1000 div b \<le> n * spf * 1000 div r"
    unfolding k_def .
  have "(n * spf * 1000) * b = 8000 * slot * (n * num)" by (rule total)
  also have "\<dots> \<le> 8000 * slot * (k * r + r)" using high by (rule mult_le_mono2)
  also have "\<dots> = (k * slot * 8 * 1000) * r + (8000 * slot) * r"
    by (simp add: algebra_simps)
  also have "\<dots> \<le> (k * slot * 8 * 1000) * r + b * r"
    using assms(4) by (intro add_left_mono mult_le_mono1)
  also have "\<dots> = (k * slot * 8 * 1000 + b) * r" by (simp add: algebra_simps)
  finally have "n * spf * 1000 div r \<le> (k * slot * 8 * 1000 + b) div b"
    using assms(1,2) by (rule div_le_of_cross_le)
  also have "\<dots> = k * slot * 8 * 1000 div b + 1"
    using assms(2) by (intro div_add_self2) simp
  finally show "n * spf * 1000 div r \<le> (n * num div r) * slot * 8 * 1000 div b + 1"
    unfolding k_def .
qed


lemma padded_stream_duration:
  assumes "cbr_valid p" "cbr_samples_match p"
  shows "length (cbr_stream p (cbr_padding p n)) * 8 * 1000 div cbr_bitrate p
           \<le> n * cbr_samples_per_frame p * 1000 div cbr_sample_rate p"
    and "n * cbr_samples_per_frame p * 1000 div cbr_sample_rate p
           \<le> length (cbr_stream p (cbr_padding p n)) * 8 * 1000 div cbr_bitrate p + 1"
proof -
  have pos: "0 < cbr_sample_rate p" "0 < cbr_bitrate p"
    using cbr_sample_rate_bounds(1) [OF assms(1)] cbr_bitrate_bounds(1) [OF assms(1)]
    by simp_all
  note tol = padded_tolerance [OF pos cbr_samples_match_bits [OF assms(2)]
      cbr_slot_duration [OF assms(1)], of n]
  show "length (cbr_stream p (cbr_padding p n)) * 8 * 1000 div cbr_bitrate p
           \<le> n * cbr_samples_per_frame p * 1000 div cbr_sample_rate p"
    unfolding length_padded_stream [OF assms(1)] by (rule tol(1))
  show "n * cbr_samples_per_frame p * 1000 div cbr_sample_rate p
           \<le> length (cbr_stream p (cbr_padding p n)) * 8 * 1000 div cbr_bitrate p + 1"
    unfolding length_padded_stream [OF assms(1)] by (rule tol(2))
qed

lemma unpadded_stream_duration:
  assumes "cbr_valid p" "cbr_samples_match p"
    and "cbr_sample_rate p dvd cbr_slot_numerator p"
  shows "length (cbr_stream p (replicate n False)) * 8 * 1000 div cbr_bitrate p
           = n * cbr_samples_per_frame p * 1000 div cbr_sample_rate p"
proof -
  have pos: "0 < cbr_bitrate p" "0 < cbr_sample_rate p"
    using cbr_sample_rate_bounds(1) [OF assms(1)] cbr_bitrate_bounds(1) [OF assms(1)]
    by simp_all
  define q where "q = cbr_slot_numerator p div cbr_sample_rate p"
  have num: "q * cbr_sample_rate p = cbr_slot_numerator p"
    unfolding q_def using assms(3) by simp
  have len: "length (cbr_stream p (replicate n False)) = n * (q * cbr_slot_bytes p)"
    unfolding length_unpadded_stream [OF assms(1)] cbr_frame_length_slots q_def by simp
  have "(n * (q * cbr_slot_bytes p) * 8 * 1000) * cbr_sample_rate p =
      1000 * n * (8 * cbr_slot_bytes p * (q * cbr_sample_rate p))"
    by simp
  also have "\<dots> = 1000 * n * (cbr_samples_per_frame p * cbr_bitrate p)"
    by (simp only: num cbr_samples_match_bits [OF assms(2)])
  also have "\<dots> = (n * cbr_samples_per_frame p * 1000) * cbr_bitrate p" by simp
  finally show ?thesis
    unfolding len using pos by (rule equal_quotients)
qed

lemma cbr_128k_44100_slots:
  "cbr_samples_match cbr_128k_44100"
  "cbr_slot_numerator cbr_128k_44100 = 18432000"
  "cbr_slot_bytes cbr_128k_44100 = 1"
  by (simp_all add: cbr_128k_44100_def cbr_samples_match_def cbr_slot_numerator_def
      cbr_slot_bytes_def cbr_bitrate_def)

lemma cbr_128k_48000_slots:
  "cbr_samples_match cbr_128k_48000"
  "cbr_slot_numerator cbr_128k_48000 = 18432000"
  by (simp_all add: cbr_128k_48000_def cbr_samples_match_def cbr_slot_numerator_def
      cbr_bitrate_def)

lemma cbr_64k_24000_layer2_facts:
  "cbr_valid cbr_64k_24000_layer2"
  "cbr_bitrate cbr_64k_24000_layer2 = 64000"
  "cbr_sample_rate cbr_64k_24000_layer2 = 24000"
  "cbr_samples_per_frame cbr_64k_24000_layer2 = 1152"
  "cbr_frame_length cbr_64k_24000_layer2 False = 192"
  by (simp_all add: cbr_64k_24000_layer2_def cbr_valid_def cbr_bitrate_def cbr_sample_rate_def
      cbr_samples_per_frame_def samples_per_frame_def cbr_frame_length_def frame_length_def)


subsection \<open>The duration of a CBR stream\<close>

text \<open>
  C1, as the claim states it, fails for the engine as the spec describes it: the CBR
  formula counts bytes, and frames whose length the formula truncates carry fewer bytes
  than their samples last. 1000 unpadded frames of 128 kbit/s at 44100 Hz are 417000
  bytes, for which the formula gives 26062 ms, while \<open>N * samples_per_frame * 1000 / R\<close>
  is 26122 ms: 60 ms apart, more than two frame durations of 26 ms. And for Layer II
  of MPEG2 the frame length formula has the coefficient 72 while a frame is said to
  hold 1152 samples: 10 frames of 64 kbit/s at 24000 Hz are 1920 bytes and 240 ms
  for the formula, against 480 ms, five frame durations of 48 ms apart.
\<close>

theorem cbr_stream_duration_counterexample:
  "map_option (\<lambda>(r, out', st'). (r, map_option (\<lambda>i. (valid i, unat (duration_ms i))) out'))
     (analyzeFile spec_engine (Some g_detector_addr)
        (cbr_stream cbr_128k_44100 (replicate 1000 False)) (initial_state [1, 2] ()))
     = Some (MP3_OK, Some (1, 26062)) \<and>
   length (replicate 1000 False) * cbr_samples_per_frame cbr_128k_44100 * 1000
     div cbr_sample_rate cbr_128k_44100 = 26122 \<and>
   cbr_samples_per_frame cbr_128k_44100 * 1000 div cbr_sample_rate cbr_128k_44100 = 26 \<and>
   (26062 :: nat) + 2 * 26 < 26122 \<and>
   map_option (\<lambda>(r, out', st'). (r, map_option (\<lambda>i. (valid i, unat (duration_ms i))) out'))
     (analyzeFile spec_engine (Some g_detector_addr)
        (cbr_stream cbr_64k_24000_layer2 (replicate 10 False)) (initial_state [1, 2] ()))
     = Some (MP3_OK, Some (1, 240)) \<and>
   length (replicate 10 False) * cbr_samples_per_frame cbr_64k_24000_layer2 * 1000
     div cbr_sample_rate cbr_64k_24000_layer2 = 480 \<and>
   cbr_samples_per_frame cbr_64k_24000_layer2 * 1000 div cbr_sample_rate cbr_64k_24000_layer2
     = 48 \<and>
   (240 :: nat) + 4 * 48 < 480"
proof -
  note f = cbr_128k_44100_facts
  have len: "length (cbr_stream cbr_128k_44100 (replicate 1000 False)) = 417000"
    by (simp add: length_unpadded_stream [OF f(1)] f(5))
  have fits: "length (cbr_stream cbr_128k_44100 (replicate 1000 False)) * 8 * 1000
      div cbr_bitrate cbr_128k_44100 < 2 ^ 32"
    by (simp add: len f(2))
  have cells: "free_cells (initial_state [1, 2] () :: (mp3_host_api_t, unit) bridge_state)
      = 1 # [2]"
    by simp
  have ne: "replicate 1000 False \<noteq> []" by simp
  have d: "unat (duration_ms (cbr_info cbr_128k_44100 417000)) = 26062"
    "valid (cbr_info cbr_128k_44100 417000) = 1"
    using cbr_info_fields [of 417000 cbr_128k_44100] by (simp_all add: f(2))
  note g = cbr_64k_24000_layer2_facts
  have len2: "length (cbr_stream cbr_64k_24000_layer2 (replicate 10 False)) = 1920"
    by (simp add: length_unpadded_stream [OF g(1)] g(5))
  have fits2: "length (cbr_stream cbr_64k_24000_layer2 (replicate 10 False)) * 8 * 1000
      div cbr_bitrate cbr_64k_24000_layer2 < 2 ^ 32"
    by (simp add: len2 g(2))
  have ne2: "replicate 10 False \<noteq> []" by simp
  have d2: "unat (duration_ms (cbr_info cbr_64k_24000_layer2 1920)) = 240"
    "valid (cbr_info cbr_64k_24000_layer2 1920) = 1"
    using cbr_info_fields [of 1920 cbr_64k_24000_layer2] by (simp_all add: g(2))
  from analyzeFile_cbr [OF f(1) ne fits cells, of g_detector_addr]
    analyzeFile_cbr [OF g(1) ne2 fits2 cells, of g_detector_addr]
  show ?thesis
    by (simp add: len d f(3,4) len2 d2 g(3,4))
qed

text \<open>
  C1, amended. For every synthetic CBR stream of at least one frame whose duration
  fits 32 bits, analysed through \<open>mp3_analyze\<close> with the modelled engine linked, a
  known total size and a session cell to allocate, the result is \<open>MP3_OK\<close> with
  \<open>valid = 1\<close> and \<open>duration_ms = bytes * 8 * 1000 div B\<close>, the CBR formula over
  the stream's byte count. When the stream is not Layer II of MPEG2 or MPEG2.5 and
  its frames are padded by the carried-remainder rule, that duration is at most
  \<open>N * samples_per_frame * 1000 div R\<close> and at least that minus 1 ms, well within
  one frame duration, which is at least 8 ms. When such a stream has no padded frame
  and the sample rate divides the numerator of the frame length formula, the two are
  equal.
\<close>

theorem cbr_stream_duration:
  assumes "cbr_valid p" and "pads \<noteq> []" and "free_cells st = s # rest"
    and "length (cbr_stream p pads) * 8 * 1000 div cbr_bitrate p < 2 ^ 32"
  shows "analyzeFile spec_engine (Some d) (cbr_stream p pads) st =
           Some (MP3_OK, Some (cbr_info p (length (cbr_stream p pads))),
                 st\<lparr>session_heap := (session_heap st)(s := None)\<rparr>) \<and>
         valid (cbr_info p (length (cbr_stream p pads))) = 1 \<and>
         unat (duration_ms (cbr_info p (length (cbr_stream p pads)))) =
           length (cbr_stream p pads) * 8 * 1000 div cbr_bitrate p \<and>
         (cbr_samples_match p \<and> pads = cbr_padding p (length pads) \<longrightarrow>
            unat (duration_ms (cbr_info p (length (cbr_stream p pads))))
              \<le> length pads * cbr_samples_per_frame p * 1000 div cbr_sample_rate p \<and>
            length pads * cbr_samples_per_frame p * 1000 div cbr_sample_rate p
              \<le> unat (duration_ms (cbr_info p (length (cbr_stream p pads)))) + 1 \<and>
            8 \<le> cbr_samples_per_frame p * 1000 div cbr_sample_rate p) \<and>
         (cbr_samples_match p \<and> pads = replicate (length pads) False \<and>
          cbr_sample_rate p dvd cbr_slot_numerator p \<longrightarrow>
            unat (duration_ms (cbr_info p (length (cbr_stream p pads))))
              = length pads * cbr_samples_per_frame p * 1000 div cbr_sample_rate p)"
proof -
  note run = analyzeFile_cbr [OF assms(1,2,4,3), of d]
  note fields = cbr_info_fields [OF assms(4)]
  have padded: "length (cbr_stream p pads) * 8 * 1000 div cbr_bitrate p
        \<le> length pads * cbr_samples_per_frame p * 1000 div cbr_sample_rate p \<and>
      length pads * cbr_samples_per_frame p * 1000 div cbr_sample_rate p
        \<le> length (cbr_stream p pads) * 8 * 1000 div cbr_bitrate p + 1 \<and>
      8 \<le> cbr_samples_per_frame p * 1000 div cbr_sample_rate p"
    if m: "cbr_samples_match p" and pd: "pads = cbr_padding p (length pads)"
  proof -
    note t = padded_stream_duration [OF assms(1) m, of "length pads"]
    have "length (cbr_stream p (cbr_padding p (length pads))) = length (cbr_stream p pads)"
      using pd by simp
    with t cbr_frame_duration_ge [OF assms(1)] show ?thesis by simp
  qed
  have unpadded: "length (cbr_stream p pads) * 8 * 1000 div cbr_bitrate p
        = length pads * cbr_samples_per_frame p * 1000 div cbr_sample_rate p"
    if m: "cbr_samples_match p" and pd: "pads = replicate (length pads) False"
      and dv: "cbr_sample_rate p dvd cbr_slot_numerator p"
  proof -
    note t = unpadded_stream_duration [OF assms(1) m dv, of "length pads"]
    have "length (cbr_stream p (replicate (length pads) False)) = length (cbr_stream p pads)"
      using pd by simp
    with t show ?thesis by simp
  qed
  show ?thesis
    unfolding fields
  proof (intro conjI impI)
    show "analyzeFile spec_engine (Some d) (cbr_stream p pads) st =
           Some (MP3_OK, Some (cbr_info p (length (cbr_stream p pads))),
                 st\<lparr>session_heap := (session_heap st)(s := None)\<rparr>)"
      by (rule run)
  qed (use padded unpadded in simp_all)
qed



theorem cbr_stream_duration_witness:
  "cbr_valid cbr_128k_44100 \<and> cbr_samples_match cbr_128k_44100 \<and>
   length (cbr_padding cbr_128k_44100 1000) = 1000 \<and>
   length (cbr_stream cbr_128k_44100 (cbr_padding cbr_128k_44100 1000)) = 417959 \<and>
   map_option (\<lambda>(r, out', st'). (r, map_option (\<lambda>i. (valid i, unat (duration_ms i))) out'))
     (analyzeFile spec_engine (Some g_detector_addr)
        (cbr_stream cbr_128k_44100 (cbr_padding cbr_128k_44100 1000)) (initial_state [1, 2] ()))
     = Some (MP3_OK, Some (1, 26122)) \<and>
   1000 * cbr_samples_per_frame cbr_128k_44100 * 1000 div cbr_sample_rate cbr_128k_44100
     = 26122 \<and>
   cbr_valid cbr_128k_48000 \<and> cbr_samples_match cbr_128k_48000 \<and>
   cbr_sample_rate cbr_128k_48000 dvd cbr_slot_numerator cbr_128k_48000 \<and>
   map_option (\<lambda>(r, out', st'). (r, map_option (\<lambda>i. (valid i, unat (duration_ms i))) out'))
     (analyzeFile spec_engine (Some g_detector_addr)
        (cbr_stream cbr_128k_48000 (replicate 3 False)) (initial_state [1, 2] ()))
     = Some (MP3_OK, Some (1, 72)) \<and>
   length (replicate 3 False) * cbr_samples_per_frame cbr_128k_48000 * 1000
     div cbr_sample_rate cbr_128k_48000 = 72"
proof -
  note f = cbr_128k_44100_facts and fs = cbr_128k_44100_slots
  have n: "length (cbr_padding cbr_128k_44100 1000) = 1000"
    by (simp add: cbr_padding_def length_padding_bits)
  then have ne: "cbr_padding cbr_128k_44100 1000 \<noteq> []" by auto
  have len: "length (cbr_stream cbr_128k_44100 (cbr_padding cbr_128k_44100 1000)) = 417959"
    by (simp add: length_padded_stream [OF f(1)] fs f(3))
  have fits: "length (cbr_stream cbr_128k_44100 (cbr_padding cbr_128k_44100 1000)) * 8 * 1000
      div cbr_bitrate cbr_128k_44100 < 2 ^ 32"
    by (simp add: len f(2))
  have cells: "free_cells (initial_state [1, 2] () :: (mp3_host_api_t, unit) bridge_state)
      = 1 # [2]"
    by simp
  have padded: "cbr_padding cbr_128k_44100 1000 =
      cbr_padding cbr_128k_44100 (length (cbr_padding cbr_128k_44100 1000))"
    by (simp only: n)
  note g = cbr_128k_48000_facts and gs = cbr_128k_48000_slots
  have len3: "length (cbr_stream cbr_128k_48000 (replicate 3 False)) = 1152"
    by (simp add: length_unpadded_stream [OF g(1)] g(5))
  have fits3: "length (cbr_stream cbr_128k_48000 (replicate 3 False)) * 8 * 1000
      div cbr_bitrate cbr_128k_48000 < 2 ^ 32"
    by (simp add: len3 g(2))
  have ne3: "replicate 3 False \<noteq> []" by simp
  have dv: "cbr_sample_rate cbr_128k_48000 dvd cbr_slot_numerator cbr_128k_48000"
    by (simp add: g(3) gs(2))
  from cbr_stream_duration [OF f(1) ne cells fits, of g_detector_addr] fs(1) padded
  have a: "analyzeFile spec_engine (Some g_detector_addr)
        (cbr_stream cbr_128k_44100 (cbr_padding cbr_128k_44100 1000)) (initial_state [1, 2] ())
      = Some (MP3_OK, Some (cbr_info cbr_128k_44100 417959),
          (initial_state [1, 2] ())\<lparr>session_heap :=
             (session_heap (initial_state [1, 2] ()
                :: (mp3_host_api_t, unit) bridge_state))(1 := None)\<rparr>)"
    "valid (cbr_info cbr_128k_44100 417959) = 1"
    "unat (duration_ms (cbr_info cbr_128k_44100 417959)) = 26122"
    "unat (duration_ms (cbr_info cbr_128k_44100 417959))
       \<le> 1000 * cbr_samples_per_frame cbr_128k_44100 * 1000 div cbr_sample_rate cbr_128k_44100"
    "1000 * cbr_samples_per_frame cbr_128k_44100 * 1000 div cbr_sample_rate cbr_128k_44100
       \<le> unat (duration_ms (cbr_info cbr_128k_44100 417959)) + 1"
    by (simp_all add: len n f(2))
  from cbr_stream_duration [OF g(1) ne3 cells fits3, of g_detector_addr] gs(1) dv
  have b: "analyzeFile spec_engine (Some g_detector_addr)
        (cbr_stream cbr_128k_48000 (replicate 3 False)) (initial_state [1, 2] ())
      = Some (MP3_OK, Some (cbr_info cbr_128k_48000 1152),
          (initial_state [1, 2] ())\<lparr>session_heap :=
             (session_heap (initial_state [1, 2] ()
                :: (mp3_host_api_t, unit) bridge_state))(1 := None)\<rparr>)"
    "valid (cbr_info cbr_128k_48000 1152) = 1"
    "unat (duration_ms (cbr_info cbr_128k_48000 1152)) =
       3 * cbr_samples_per_frame cbr_128k_48000 * 1000 div cbr_sample_rate cbr_128k_48000"
    by (simp_all add: len3)
  show ?thesis
    using a(1-3) b n len dv
    by (simp add: f gs g fs)
qed


section \<open>Running the analysis twice\<close>

text \<open>
  What \<open>mp3_analyze\<close> returns when a guard stops it before a session is allocated,
  and the two ways of calling it twice: from the same state, and one call after the
  other.
\<close>

lemma analyze_guard_failure:
  assumes "\<not> (\<exists>d api. detector = Some d \<and> host_api = Some api \<and> read_at api \<noteq> None)"
  shows "fst (mp3_session_init eng detector host_api (Some None) st) \<noteq> MP3_OK \<and>
     mp3_analyze eng detector host_api (Some i) st =
       Some (fst (mp3_session_init eng detector host_api (Some None) st), Some i, st)"
  using assms
  by (auto simp: mp3_analyze_def mp3_session_init_def mp3_result_defs split: bridge_splits)

lemma analyze_two_records:
  "\<exists>r out1 out2 st'.
     mp3_analyze eng detector host_api (Some i1) st = Some (r, out1, st') \<and>
     mp3_analyze eng detector host_api (Some i2) st = Some (r, out2, st') \<and>
     (if fst (mp3_session_init eng detector host_api (Some None) st) = MP3_OK
      then out1 = out2
      else out1 = Some i1 \<and> out2 = Some i2)"
proof (cases "\<exists>d api. detector = Some d \<and> host_api = Some api \<and> read_at api \<noteq> None")
  case False
  note g = analyze_guard_failure [OF False, of eng st]
  show ?thesis using g [of i1] g [of i2] by simp
next
  case True
  then obtain d api where args: "detector = Some d" "host_api = Some api"
    "read_at api \<noteq> None"
    by blast
  show ?thesis
  proof (cases "free_cells st")
    case Nil
    then show ?thesis
      using args
      by (simp add: mp3_analyze_checked mp3_session_init_checked mp3_result_defs)
  next
    case (Cons s rest)
    obtain ir rs e1 where init: "init_impl eng (Some api) None (engine_state st) = (ir, rs, e1)"
      by (cases "init_impl eng (Some api) None (engine_state st)") auto
    obtain rr out' e2 where run: "run_impl eng rs (Some zero_info) e1 = (rr, out', e2)"
      by (cases "run_impl eng rs (Some zero_info) e1") auto
    show ?thesis
      using args Cons init run
      by (simp add: mp3_analyze_checked mp3_session_init_checked)
  qed
qed

lemma analyze_in_sequence:
  assumes "stateless_engine eng"
  shows "\<exists>r out1 out2 st'.
           mp3_analyze eng detector host_api (Some j1) st = Some (r, out1, st') \<and>
           mp3_analyze eng detector host_api (Some j2) st' = Some (r, out2, st') \<and>
           mp3_analyze eng detector host_api out2 st' = Some (r, out2, st') \<and>
           (if fst (mp3_session_init eng detector host_api (Some None) st) = MP3_OK
            then out1 = out2 \<and> out1 \<noteq> None
            else out1 = Some j1 \<and> out2 = Some j2)"
proof (cases "\<exists>d api. detector = Some d \<and> host_api = Some api \<and> read_at api \<noteq> None")
  case False
  note g = analyze_guard_failure [OF False, of eng st]
  show ?thesis using g [of j1] g [of j2] by simp
next
  case True
  then obtain d api where args: "detector = Some d" "host_api = Some api"
    "read_at api \<noteq> None"
    by blast
  show ?thesis
  proof (cases "free_cells st")
    case Nil
    then show ?thesis
      using args
      by (simp add: mp3_analyze_checked mp3_session_init_checked mp3_result_defs)
  next
    case (Cons s rest)
    obtain ir rs where init: "init_impl eng (Some api) None (engine_state st) =
        (ir, rs, engine_state st)"
      using assms unfolding stateless_engine_def
      by (metis prod.collapse)
    obtain rr i' where run: "run_impl eng rs (Some zero_info) (engine_state st) =
        (rr, Some i', engine_state st)"
      using assms unfolding stateless_engine_def by metis
    have deinit: "deinit_impl eng rs (engine_state st) = engine_state st"
      using assms unfolding stateless_engine_def by metis
    let ?st' = "st\<lparr>session_heap := (session_heap st)(s := None)\<rparr>"
    have cells: "free_cells ?st' = s # rest" "engine_state ?st' = engine_state st"
      using Cons by simp_all
    show ?thesis
    proof (cases "ir = MP3_OK")
      case False
      have a: "mp3_analyze eng (Some d) (Some api) (Some j) st = Some (ir, Some j, ?st')"
        for j
        using args Cons init False by (simp add: mp3_analyze_checked)
      have b: "mp3_analyze eng (Some d) (Some api) (Some j) ?st' = Some (ir, Some j, ?st')"
        for j
        using args cells init False by (simp add: mp3_analyze_checked)
      have c: "fst (mp3_session_init eng (Some d) (Some api) (Some None) st) = ir"
        using args Cons init False by (simp add: mp3_session_init_checked)
      show ?thesis using args a b c False by simp
    next
      case True
      have a: "mp3_analyze eng (Some d) (Some api) (Some j) st = Some (rr, Some i', ?st')"
        for j
        using args Cons init True run deinit by (simp add: mp3_analyze_checked)
      have b: "mp3_analyze eng (Some d) (Some api) (Some j) ?st' = Some (rr, Some i', ?st')"
        for j
        using args cells init True run deinit by (simp add: mp3_analyze_checked)
      have c: "fst (mp3_session_init eng (Some d) (Some api) (Some None) st) = MP3_OK"
        using args Cons init True by (simp add: mp3_session_init_checked)
      show ?thesis using args a b c by simp
    qed
  qed
qed

lemma analyze_again:
  assumes "stateless_engine eng"
  shows "\<exists>r out' st'.
           mp3_analyze eng detector host_api out_info st = Some (r, out', st') \<and>
           mp3_analyze eng detector host_api out' st' = Some (r, out', st')"
proof (cases out_info)
  case None
  then show ?thesis by (simp add: mp3_analyze_null)
next
  case (Some i)
  from analyze_in_sequence [OF assms, of detector host_api i st i] obtain r out1 out2 st' where
    p: "mp3_analyze eng detector host_api (Some i) st = Some (r, out1, st')"
      "mp3_analyze eng detector host_api out2 st' = Some (r, out2, st')"
      "if fst (mp3_session_init eng detector host_api (Some None) st) = MP3_OK
       then out1 = out2 \<and> out1 \<noteq> None else out1 = Some i \<and> out2 = Some i"
    by blast
  from p(3) have "out1 = out2" by (simp split: if_splits)
  with p(1,2) Some show ?thesis by auto
qed

text \<open>
  C6, as the claim states it, fails on every path that ends before the run, which is
  every call of a build with the weak stubs: the record is not written there, so two
  calls over the same host\_api and the same bytes return the same result code and
  leave two records that differ as they differed before.
\<close>

theorem analyze_twice_counterexample:
  "mp3_analyze (weak_stubs :: (unit, unit) mp3_engine) (Some g_detector_addr)
      (Some (analyzeFile_host_api [255, 251])) (Some zero_info) (initial_state [1, 2] ()) =
     Some (MP3_ERR_NOT_IMPLEMENTED, Some zero_info, initial_state [1, 2] ()) \<and>
   mp3_analyze (weak_stubs :: (unit, unit) mp3_engine) (Some g_detector_addr)
      (Some (analyzeFile_host_api [255, 251])) (Some stale_info) (initial_state [1, 2] ()) =
     Some (MP3_ERR_NOT_IMPLEMENTED, Some stale_info, initial_state [1, 2] ()) \<and>
   zero_info \<noteq> stale_info"
  by (simp add: mp3_analyze_checked mp3_rust_session_init_impl_def mp3_result_defs
      initial_state_def stale_info_def zero_info_def)

text \<open>
  C6, amended. For every linked engine, two calls of \<open>mp3_analyze\<close> from the same
  program state with the same detector and host\_api, whatever the two records held,
  both return, with the same result code and the same final state; the records are
  identical when \<open>mp3_session_init\<close> succeeds, and when it fails each record is
  left exactly as its caller passed it. \<open>mp3_session_run\<close> on a non-null session
  does not depend on what the record held. With an engine that keeps no state of its
  own between calls the same holds of two calls made one after the other, where the
  common record is moreover non-null, and a call repeated with the record the first
  one returned gives the same code, record and state again.
\<close>

theorem analyze_twice:
  "(\<exists>r out1 out2 st'.
      mp3_analyze eng detector host_api (Some i1) st = Some (r, out1, st') \<and>
      mp3_analyze eng detector host_api (Some i2) st = Some (r, out2, st') \<and>
      (if fst (mp3_session_init eng detector host_api (Some None) st) = MP3_OK
       then out1 = out2
       else out1 = Some i1 \<and> out2 = Some i2)) \<and>
   (session \<noteq> None \<longrightarrow>
      mp3_session_run eng session (Some i1) st = mp3_session_run eng session (Some i2) st) \<and>
   (stateless_engine eng \<longrightarrow>
      (\<exists>r out1 out2 st'.
         mp3_analyze eng detector host_api (Some i1) st = Some (r, out1, st') \<and>
         mp3_analyze eng detector host_api (Some i2) st' = Some (r, out2, st') \<and>
         (if fst (mp3_session_init eng detector host_api (Some None) st) = MP3_OK
          then out1 = out2 \<and> out1 \<noteq> None
          else out1 = Some i1 \<and> out2 = Some i2)) \<and>
      (\<exists>r out' st'.
         mp3_analyze eng detector host_api out_info st = Some (r, out', st') \<and>
         mp3_analyze eng detector host_api out' st' = Some (r, out', st')))"
proof (intro conjI impI)
  show "\<exists>r out1 out2 st'.
      mp3_analyze eng detector host_api (Some i1) st = Some (r, out1, st') \<and>
      mp3_analyze eng detector host_api (Some i2) st = Some (r, out2, st') \<and>
      (if fst (mp3_session_init eng detector host_api (Some None) st) = MP3_OK
       then out1 = out2
       else out1 = Some i1 \<and> out2 = Some i2)"
    by (rule analyze_two_records)
next
  assume "session \<noteq> None"
  then show "mp3_session_run eng session (Some i1) st = mp3_session_run eng session (Some i2) st"
    by (auto simp: mp3_session_run_def)
next
  assume e: "stateless_engine eng"
  from analyze_in_sequence [OF e, of detector host_api i1 st i2]
  show "\<exists>r out1 out2 st'.
         mp3_analyze eng detector host_api (Some i1) st = Some (r, out1, st') \<and>
         mp3_analyze eng detector host_api (Some i2) st' = Some (r, out2, st') \<and>
         (if fst (mp3_session_init eng detector host_api (Some None) st) = MP3_OK
          then out1 = out2 \<and> out1 \<noteq> None
          else out1 = Some i1 \<and> out2 = Some i2)"
    by blast
next
  assume e: "stateless_engine eng"
  then show "\<exists>r out' st'.
         mp3_analyze eng detector host_api out_info st = Some (r, out', st') \<and>
         mp3_analyze eng detector host_api out' st' = Some (r, out', st')"
    by (rule analyze_again)
qed


theorem analyze_twice_witness:
  "stateless_engine spec_engine \<and>
   fst (mp3_session_init spec_engine (Some g_detector_addr)
      (Some (analyzeFile_host_api (cbr_stream cbr_128k_48000 (replicate 3 False))))
      (Some None) (initial_state [1, 2] ())) = MP3_OK \<and>
   mp3_analyze spec_engine (Some g_detector_addr)
      (Some (analyzeFile_host_api (cbr_stream cbr_128k_48000 (replicate 3 False))))
      (Some zero_info) (initial_state [1, 2] ()) =
     Some (MP3_OK, Some (cbr_info cbr_128k_48000 1152), initial_state [1, 2] ()) \<and>
   mp3_analyze spec_engine (Some g_detector_addr)
      (Some (analyzeFile_host_api (cbr_stream cbr_128k_48000 (replicate 3 False))))
      (Some stale_info) (initial_state [1, 2] ()) =
     Some (MP3_OK, Some (cbr_info cbr_128k_48000 1152), initial_state [1, 2] ()) \<and>
   mp3_session_run spec_engine (Some 1) (Some stale_info)
      (snd (snd (mp3_session_init spec_engine (Some g_detector_addr)
         (Some (analyzeFile_host_api (cbr_stream cbr_128k_48000 (replicate 3 False))))
         (Some None) (initial_state [1, 2] ())))) =
     Some (MP3_OK, Some (cbr_info cbr_128k_48000 1152),
       snd (snd (mp3_session_init spec_engine (Some g_detector_addr)
         (Some (analyzeFile_host_api (cbr_stream cbr_128k_48000 (replicate 3 False))))
         (Some None) (initial_state [1, 2] ())))) \<and>
   unat (duration_ms (cbr_info cbr_128k_48000 1152)) = 72 \<and>
   unat (duration_ms stale_info) = 5000"
proof -
  note f = cbr_128k_48000_facts
  let ?api = "analyzeFile_host_api (cbr_stream cbr_128k_48000 (replicate 3 False))"
  let ?st = "initial_state [1, 2] () :: (mp3_host_api_t, unit) bridge_state"
  have len: "length (cbr_stream cbr_128k_48000 (replicate 3 False)) = 1152"
    by (simp add: length_unpadded_stream [OF f(1)] f(5))
  have fits: "length (cbr_stream cbr_128k_48000 (replicate 3 False)) * 8 * 1000
      div cbr_bitrate cbr_128k_48000 < 2 ^ 32"
    by (simp add: len f(2))
  have cells: "free_cells ?st = 1 # [2]" by simp
  have ne: "replicate 3 False \<noteq> []" by simp
  have first: "mp3_analyze spec_engine (Some g_detector_addr) (Some ?api) (Some zero_info) ?st
      = Some (MP3_OK, Some (cbr_info cbr_128k_48000 1152), ?st)"
    using analyzeFile_cbr [OF f(1) ne fits cells, of g_detector_addr]
    by (simp add: len analyzeFile_def initial_state_def)
  have init: "fst (mp3_session_init spec_engine (Some g_detector_addr) (Some ?api) (Some None)
      ?st) = MP3_OK"
    by (simp add: mp3_session_init_checked engine_session_init_def)
  from analyze_twice [of spec_engine "Some g_detector_addr" "Some ?api"
      zero_info ?st stale_info "Some 1" "Some zero_info"] spec_engine_stateless
  obtain r out1 out2 st' where
    p: "mp3_analyze spec_engine (Some g_detector_addr) (Some ?api) (Some zero_info) ?st
          = Some (r, out1, st')"
       "mp3_analyze spec_engine (Some g_detector_addr) (Some ?api) (Some stale_info) st'
          = Some (r, out2, st')"
       "if fst (mp3_session_init spec_engine (Some g_detector_addr) (Some ?api) (Some None)
          ?st) = MP3_OK
        then out1 = out2 \<and> out1 \<noteq> None else out1 = Some zero_info \<and> out2 = Some stale_info"
    by blast
  from p(3) init have same: "out1 = out2" by simp
  from p(1) first have "r = MP3_OK" "out1 = Some (cbr_info cbr_128k_48000 1152)" "st' = ?st"
    by simp_all
  with p(2) same have second:
    "mp3_analyze spec_engine (Some g_detector_addr) (Some ?api) (Some stale_info) ?st
      = Some (MP3_OK, Some (cbr_info cbr_128k_48000 1152), ?st)"
    by simp
  let ?st1 = "snd (snd (mp3_session_init spec_engine (Some g_detector_addr) (Some ?api)
      (Some None) ?st))"
  have live: "session_heap ?st1 1 = Some \<lparr>rust_session = Some ?api\<rparr>"
    "engine_state ?st1 = ()"
    by (simp_all add: mp3_session_init_checked engine_session_init_def)
  have run0: "mp3_session_run spec_engine (Some 1) (Some zero_info) ?st1
      = Some (MP3_OK, Some (cbr_info cbr_128k_48000 1152), ?st1)"
    unfolding run_live [OF live(1)]
    by (simp add: engine_session_run_def engine_analyze_cbr [OF f(1) ne fits] len)
  from analyze_twice [of spec_engine "Some g_detector_addr" "Some ?api"
      zero_info ?st1 stale_info "Some 1" "Some zero_info"]
  have "mp3_session_run spec_engine (Some 1) (Some zero_info) ?st1 =
      mp3_session_run spec_engine (Some 1) (Some stale_info) ?st1"
    by simp
  with run0 have run1: "mp3_session_run spec_engine (Some 1) (Some stale_info) ?st1
      = Some (MP3_OK, Some (cbr_info cbr_128k_48000 1152), ?st1)"
    by simp
  have d: "unat (duration_ms (cbr_info cbr_128k_48000 1152)) = 72"
    using cbr_info_fields [of 1152 cbr_128k_48000] by (simp add: f(2))
  have e: "unat (duration_ms stale_info) = 5000" by (simp add: stale_info_def)
  from spec_engine_stateless init first second run1 d e show ?thesis by simp
qed

end
